theory Spec2Isabelle
  imports Complex_Main
begin

section \<open>Numbers, timestamps and containers\<close>

text \<open>
  The strategy computes on IEEE doubles (Python and numpy floats). A finite double is a
  real number of the model, and the indicator library pads the look-back period of its
  output with NaN, a numpy division by zero yields an infinity or NaN instead of raising,
  and every ordered comparison with NaN is false. Prices, volumes and the portfolio value
  that come in from outside are finite numbers.

  Two computations are decided by how their results are rounded, and there the model
  rounds as the machine does (\<open>dbl\<close> below): the position sizing of the entry side
  (stop and target price, the risk budget, the floor division, the subtraction of the
  position held) and \<open>round\<close>. The other arithmetic of the exit side (the movement
  ratios, the whipsaw and scale-out thresholds) is taken exact.
\<close>

datatype fl = Fin real | PInf | NInf | NaN

fun fl_lt :: "fl \<Rightarrow> fl \<Rightarrow> bool" where
  "fl_lt (Fin a) (Fin b) = (a < b)"
| "fl_lt (Fin a) PInf = True"
| "fl_lt NInf (Fin b) = True"
| "fl_lt NInf PInf = True"
| "fl_lt PInf b = False"
| "fl_lt (Fin a) NInf = False"
| "fl_lt NInf NInf = False"
| "fl_lt NaN b = False"
| "fl_lt a NaN = False"

fun fl_le :: "fl \<Rightarrow> fl \<Rightarrow> bool" where
  "fl_le (Fin a) (Fin b) = (a \<le> b)"
| "fl_le (Fin a) PInf = True"
| "fl_le NInf (Fin b) = True"
| "fl_le NInf PInf = True"
| "fl_le PInf PInf = True"
| "fl_le NInf NInf = True"
| "fl_le PInf (Fin b) = False"
| "fl_le PInf NInf = False"
| "fl_le (Fin a) NInf = False"
| "fl_le NaN b = False"
| "fl_le a NaN = False"

definition fl_gt :: "fl \<Rightarrow> fl \<Rightarrow> bool" where
  "fl_gt a b = fl_lt b a"

definition fl_ge :: "fl \<Rightarrow> fl \<Rightarrow> bool" where
  "fl_ge a b = fl_le b a"

text \<open>
  Rounding to the nearest double, ties to the even neighbour: a number \<open>x\<close> with
  \<open>2^e \<le> |x| < 2^(e+1)\<close> is rounded to a multiple of \<open>2^(e-52)\<close>, so that 53
  significant bits remain. The range of the exponent is not bounded: overflow to an
  infinity and the subnormal numbers are outside the model. A float literal of the
  source such as \<open>0.96\<close> is \<open>dbl (96 / 100)\<close>, and a sum, difference, product or
  quotient of two doubles is \<open>dbl\<close> of the exact result.
\<close>

definition round_half_even :: "real \<Rightarrow> int" where
  "round_half_even r =
     (let f = \<lfloor>r\<rfloor>; d = r - of_int f
      in if d < 1 / 2 then f else if 1 / 2 < d then f + 1
         else if even f then f else f + 1)"

function expo :: "real \<Rightarrow> int" where
  "expo x =
     (if x = 0 then 0
      else if 2 \<le> \<bar>x\<bar> then expo (x / 2) + 1
      else if \<bar>x\<bar> < 1 then expo (x * 2) - 1
      else 0)"
  by pat_completeness auto
termination
proof (relation "measure (\<lambda>x. nat \<bar>\<lfloor>log 2 \<bar>x\<bar>\<rfloor>\<bar>)")
  show "wf (measure (\<lambda>x. nat \<bar>\<lfloor>log 2 \<bar>x\<bar>\<rfloor>\<bar>))" by simp
next
  fix x :: real
  assume x: "x \<noteq> 0" and big: "2 \<le> \<bar>x\<bar>"
  have "log 2 \<bar>x / 2\<bar> = log 2 \<bar>x\<bar> - 1"
    using x by (simp add: log_divide)
  moreover have "1 \<le> log 2 \<bar>x\<bar>"
    using big x by simp
  then have "1 \<le> \<lfloor>log 2 \<bar>x\<bar>\<rfloor>" by linarith
  ultimately show "(x / 2, x) \<in> measure (\<lambda>x. nat \<bar>\<lfloor>log 2 \<bar>x\<bar>\<rfloor>\<bar>)"
    by simp
next
  fix x :: real
  assume x: "x \<noteq> 0" and small: "\<bar>x\<bar> < 1"
  have "log 2 \<bar>x * 2\<bar> = log 2 \<bar>x\<bar> + 1"
    using x by (simp add: log_mult abs_mult)
  moreover have "log 2 \<bar>x\<bar> < 0"
    using small x by simp
  then have "\<lfloor>log 2 \<bar>x\<bar>\<rfloor> \<le> - 1" by linarith
  ultimately show "(x * 2, x) \<in> measure (\<lambda>x. nat \<bar>\<lfloor>log 2 \<bar>x\<bar>\<rfloor>\<bar>)"
    by simp
qed

declare expo.simps [simp del]

definition ulp_round :: "real \<Rightarrow> real \<Rightarrow> real" where
  "ulp_round u x = of_int (round_half_even (x / u)) * u"

definition dbl :: "real \<Rightarrow> real" where
  "dbl x = ulp_round (2 powi (expo x - 52)) x"

text \<open>\<open>a / b\<close> on numpy doubles: no exception on a zero divisor.\<close>

definition np_div :: "real \<Rightarrow> real \<Rightarrow> fl" where
  "np_div a b =
     (if b \<noteq> 0 then Fin (a / b)
      else if 0 < a then PInf else if a < 0 then NInf else NaN)"

text \<open>
  \<open>a // b\<close> on numpy doubles, which is the floor division of Python's floats except
  that a zero divisor gives the plain quotient instead of an exception:
  \<^verbatim>\<open>
  mod = fmod(a, b);  div = (a - mod) / b;
  if (mod) { if ((b < 0) != (mod < 0)) { mod += b; div -= 1.0; } }
  if (div) { floordiv = floor(div); if (div - floordiv > 0.5) floordiv += 1.0; }
  else floordiv = 0;
  \<close>
  \<open>fmod\<close> is exact: the remainder of the division truncated towards zero.
\<close>

definition trunc :: "real \<Rightarrow> int" where
  "trunc t = (if 0 \<le> t then \<lfloor>t\<rfloor> else \<lceil>t\<rceil>)"

definition fmod :: "real \<Rightarrow> real \<Rightarrow> real" where
  "fmod a b = a - b * of_int (trunc (a / b))"

definition floordiv_adjust :: "real \<Rightarrow> real \<Rightarrow> real \<Rightarrow> real" where
  "floordiv_adjust b m d = (if m \<noteq> 0 \<and> (b < 0) \<noteq> (m < 0) then dbl (d - 1) else d)"

definition floordiv_snap_to :: "real \<Rightarrow> real \<Rightarrow> real" where
  "floordiv_snap_to f d = (if 1 / 2 < dbl (d - f) then dbl (f + 1) else f)"

definition floordiv_snap :: "real \<Rightarrow> real" where
  "floordiv_snap d = (if d \<noteq> 0 then floordiv_snap_to (of_int \<lfloor>d\<rfloor>) d else 0)"

definition np_floordiv :: "real \<Rightarrow> real \<Rightarrow> fl" where
  "np_floordiv a b =
     (if b = 0 then (if 0 < a then PInf else if a < 0 then NInf else NaN)
      else Fin (floordiv_snap (floordiv_adjust b (fmod a b) (dbl (dbl (a - fmod a b) / b)))))"

text \<open>\<open>x - n\<close> for a double \<open>x\<close> and an integer \<open>n\<close>, which is converted to a double
  first.\<close>

definition fl_sub_int :: "fl \<Rightarrow> int \<Rightarrow> fl" where
  "fl_sub_int x n = (case x of Fin r \<Rightarrow> Fin (dbl (r - dbl (of_int n))) | _ \<Rightarrow> x)"

text \<open>Truth value of a double: only zero is false (NaN and the infinities are true).\<close>

definition fl_truthy :: "fl \<Rightarrow> bool" where
  "fl_truthy x = (x \<noteq> Fin 0)"

text \<open>\<open>round(x, n)\<close> on a numpy double: \<open>rint(x * 10^n) / 10^n\<close>, the product and the
  quotient being those of doubles and \<open>rint\<close> rounding to the nearest integer, ties to
  the even one; NaN and the infinities are returned as they are.\<close>

definition py_round :: "fl \<Rightarrow> nat \<Rightarrow> fl" where
  "py_round x n =
     (case x of
        Fin r \<Rightarrow> Fin (dbl (of_int (round_half_even (dbl (r * 10 ^ n))) / 10 ^ n))
      | _ \<Rightarrow> x)"

text \<open>A \<open>datetime\<close> is a count of microseconds; \<open>replace(second=0, microsecond=0)\<close>
  truncates it to the minute.\<close>

type_synonym datetime = int

definition minutes :: "int \<Rightarrow> int" where
  "minutes n = n * 60000000"

definition replace_sec0 :: "datetime \<Rightarrow> datetime" where
  "replace_sec0 t = t - t mod 60000000"

text \<open>\<open>(now - market_open).seconds // 60 < 30\<close>: the \<open>seconds\<close> field of a
  \<open>timedelta\<close> is the whole seconds within the day, the days being held apart.\<close>

definition timedelta_seconds :: "int \<Rightarrow> int" where
  "timedelta_seconds d = (d div 1000000) mod 86400"

datatype error = IndexError | KeyError | TypeError | ConfigError | ApiFailure

text \<open>\<open>xs[-k]\<close> on a series, and \<open>d[key]\<close> on a dict.\<close>

definition idx_back :: "'a list \<Rightarrow> nat \<Rightarrow> error + 'a" where
  "idx_back xs k =
     (if 1 \<le> k \<and> k \<le> length xs then Inr (xs ! (length xs - k)) else Inl IndexError)"

definition lookup :: "('k \<rightharpoonup> 'v) \<Rightarrow> 'k \<Rightarrow> error + 'v" where
  "lookup m k = (case m k of None \<Rightarrow> Inl KeyError | Some v \<Rightarrow> Inr v)"

text \<open>\<open>xs[-k:]\<close>.\<close>

definition last_n :: "nat \<Rightarrow> 'a list \<Rightarrow> 'a list" where
  "last_n k xs = drop (length xs - k) xs"

text \<open>Sequencing of steps that may raise: the first exception ends the computation.\<close>

definition bindE :: "error + 'a \<Rightarrow> ('a \<Rightarrow> error + 'b) \<Rightarrow> error + 'b" where
  "bindE m f = (case m of Inl e \<Rightarrow> Inl e | Inr x \<Rightarrow> f x)"

section \<open>Data model\<close>

type_synonym symbol = string

record bar =
  ts :: datetime
  close :: real
  volume :: real
  vwap :: real
  average :: real

record buy_audit =
  b_macd :: "fl list"
  b_macd_signal :: "fl list"
  b_vwap :: real
  b_avg :: real
  b_reason :: "string list"

datatype sell_reason = Stopped | AboveTarget | RsiMax | Bail | ScaleOut | BailPostWhipsawed

record sell_audit =
  s_rsi :: "fl list"
  s_movement :: fl
  s_macd :: "fl list"
  s_macd_signal :: "fl list"
  s_vwap :: real
  s_avg :: real
  s_reasons :: "sell_reason list"

text \<open>
  The module-level dictionaries of \<open>trading_data\<close> and the two class-level ones
  (\<open>whipsawed\<close>, \<open>down_cross\<close>). \<open>cool_down\<close> and \<open>down_cross\<close> hold \<open>None\<close> as a
  value, which differs from an absent key. \<open>open_orders\<close> holds the truth value of
  the stored entry and \<open>last_used_strategy\<close> the name of the stored strategy.
\<close>

record state =
  cool_down :: "symbol \<rightharpoonup> datetime option"
  down_cross :: "symbol \<rightharpoonup> real option"
  whipsawed :: "symbol \<rightharpoonup> bool"
  target_prices :: "symbol \<rightharpoonup> real"
  stop_prices :: "symbol \<rightharpoonup> real"
  latest_cost_basis :: "symbol \<rightharpoonup> real"
  latest_scalp_basis :: "symbol \<rightharpoonup> real"
  buy_time :: "symbol \<rightharpoonup> datetime"
  last_used_strategy :: "symbol \<rightharpoonup> string"
  open_orders :: "symbol \<rightharpoonup> bool"
  buy_indicators :: "symbol \<rightharpoonup> buy_audit"
  sell_indicators :: "symbol \<rightharpoonup> sell_audit"

text \<open>
  What the function takes from its surroundings: the configuration (\<open>config.market_open\<close>,
  \<open>config.risk\<close>), the base class's trading-window tests, and the indicator library
  (\<open>MACD\<close> gives the oscillator and its signal line, \<open>RSI\<close> the bounded oscillator).
  The indicator functions are taken as total: each returns a series for every input,
  and exceptions of the library itself are outside the model.
\<close>

record env =
  market_open :: datetime
  risk :: real
  is_buy_time :: "datetime \<Rightarrow> bool"
  is_sell_time :: "datetime \<Rightarrow> bool"
  MACD :: "real list \<Rightarrow> nat \<Rightarrow> nat \<Rightarrow> fl list \<times> fl list"
  RSI :: "real list \<Rightarrow> nat \<Rightarrow> fl list"

text \<open>One call of \<open>trading_api.get_account()\<close>; the gateway is given by the outcome of
  its calls, in order.\<close>

datatype fetch = Fetched real | ConnectionError | OtherFailure

type_synonym trading_api = "nat \<Rightarrow> fetch"

text \<open>The returned pair \<open>(False, {})\<close> or \<open>(True, {...})\<close>. The dict holds \<open>str(qty)\<close>
  and \<open>str(price)\<close>; the model holds the numbers.\<close>

datatype side = Buy | Sell

datatype qty = IntQty int | FloatQty fl

datatype order_type = Market | Limit real

datatype order = Order side qty order_type

datatype action = NoAction | Submit order

datatype outcome = Raised error | Returned action

definition strategy_name :: string where
  "strategy_name = ''momentum_long_v5''"

section \<open>Callbacks and cooldown\<close>

definition buy_callback :: "state \<Rightarrow> symbol \<Rightarrow> real \<Rightarrow> state" where
  "buy_callback st symbol price =
     st\<lparr>latest_cost_basis := (latest_cost_basis st)(symbol \<mapsto> price),
        latest_scalp_basis := (latest_scalp_basis st)(symbol \<mapsto> price)\<rparr>"

definition sell_callback :: "state \<Rightarrow> symbol \<Rightarrow> real \<Rightarrow> state" where
  "sell_callback st symbol price =
     st\<lparr>latest_scalp_basis := (latest_scalp_basis st)(symbol \<mapsto> price)\<rparr>"

definition should_cool_down :: "state \<Rightarrow> symbol \<Rightarrow> datetime \<Rightarrow> bool \<times> state" where
  "should_cool_down st symbol now =
     (case cool_down st symbol of
        Some (Some t) \<Rightarrow>
          if replace_sec0 now \<le> t then (True, st)
          else (False, st\<lparr>cool_down := (cool_down st)(symbol \<mapsto> None)\<rparr>)
      | _ \<Rightarrow> (False, st\<lparr>cool_down := (cool_down st)(symbol \<mapsto> None)\<rparr>))"

section \<open>Indicator pipeline\<close>

text \<open>
  \<open>minute_history["close"].dropna().between_time("9:30", "16:00")\<close>: the closes of the
  bars whose time of day lies in the session, both ends included. A bar of the model
  always carries a close, so \<open>dropna\<close> drops nothing.
\<close>

definition time_of_day :: "datetime \<Rightarrow> int" where
  "time_of_day t = t mod 86400000000"

definition in_session :: "datetime \<Rightarrow> bool" where
  "in_session t = (minutes 570 \<le> time_of_day t \<and> time_of_day t \<le> minutes 960)"

definition session_bars :: "bar list \<Rightarrow> bar list" where
  "session_bars h = filter (\<lambda>b. in_session (ts b)) h"

definition session_close :: "bar list \<Rightarrow> real list" where
  "session_close h = map close (session_bars h)"

text \<open>\<open>.resample("5min").last()\<close> followed by \<open>dropna()\<close>, on a history in time order:
  of each run of bars in one five-minute bucket the last close remains.\<close>

definition bucket5 :: "datetime \<Rightarrow> int" where
  "bucket5 t = t div minutes 5"

fun resample_last :: "bar list \<Rightarrow> real list" where
  "resample_last [] = []"
| "resample_last [b] = [close b]"
| "resample_last (b # c # r) =
     (if bucket5 (ts b) = bucket5 (ts c) then resample_last (c # r)
      else close b # resample_last (c # r))"

definition close_5min :: "bar list \<Rightarrow> real list" where
  "close_5min h = resample_last (session_bars h)"

text \<open>\<open>minute_history["close"][buy_time[symbol]:].max()\<close>: the highest close from the
  buy time on, \<open>None\<close> (pandas gives NaN) when no bar is left.\<close>

definition max_close_since :: "bar list \<Rightarrow> datetime \<Rightarrow> real option" where
  "max_close_since h t =
     (case map close (filter (\<lambda>b. t \<le> ts b) h) of
        [] \<Rightarrow> None
      | c # cs \<Rightarrow> Some (fold max cs c))"

section \<open>Entry decision engine\<close>

text \<open>\<open>self.down_cross.get(symbol, None)\<close> as a condition: an anchor is stored and is
  not zero.\<close>

definition anchor_set :: "state \<Rightarrow> symbol \<Rightarrow> bool" where
  "anchor_set st symbol =
     (case down_cross st symbol of Some (Some a) \<Rightarrow> a \<noteq> 0 | _ \<Rightarrow> False)"

definition morning_rush :: "env \<Rightarrow> datetime \<Rightarrow> bool" where
  "morning_rush e now = (timedelta_seconds (now - market_open e) div 60 < 30)"

text \<open>The condition of the first branch of \<open>run\<close>. \<open>and\<close> stops at the first false
  operand, so \<open>should_cool_down\<close> and its write happen only after the three tests
  before it have passed.\<close>

definition buy_guard ::
  "env \<Rightarrow> state \<Rightarrow> symbol \<Rightarrow> int \<Rightarrow> bar \<Rightarrow> datetime \<Rightarrow> bool \<times> state" where
  "buy_guard e st symbol position data now =
     (if is_buy_time e now \<and> position = 0 \<and> open_orders st symbol \<noteq> Some True
      then (case should_cool_down st symbol now of
              (cd, st') \<Rightarrow> (\<not> cd \<and> 500 < volume data, st'))
      else (False, st))"

datatype crossing = DownCross | UpCross | NoCross

text \<open>The two zero-crossing tests (\<open>macd[-1] < 0 <= macd[-2] and not anchor\<close>, then
  \<open>anchor and macd[-1] >= 0\<close>).\<close>

definition zero_cross :: "state \<Rightarrow> symbol \<Rightarrow> fl list \<Rightarrow> error + crossing" where
  "zero_cross st symbol macd =
     bindE (idx_back macd 1) (\<lambda>m1.
     bindE (if fl_lt m1 (Fin 0)
            then bindE (idx_back macd 2) (\<lambda>m2.
                   Inr (fl_le (Fin 0) m2 \<and> \<not> anchor_set st symbol))
            else Inr False) (\<lambda>down.
     if down then Inr DownCross
     else if anchor_set st symbol \<and> fl_ge m1 (Fin 0) then Inr UpCross
     else Inr NoCross))"

text \<open>The trend test and the price test after it; the result is \<open>to_buy\<close>. A chained
  comparison reads its third operand only when the first comparison holds.\<close>

definition to_buy :: "state \<Rightarrow> symbol \<Rightarrow> fl list \<Rightarrow> fl list \<Rightarrow> bar \<Rightarrow> error + bool" where
  "to_buy st symbol macd macd_signal data =
     (if \<not> anchor_set st symbol then Inr False
      else
        bindE (idx_back macd 1) (\<lambda>m1.
        bindE (idx_back macd 2) (\<lambda>m2.
        if \<not> fl_gt m1 m2 then Inr False
        else
          bindE (idx_back macd 3) (\<lambda>m3.
          if \<not> fl_gt m2 m3 then Inr False
          else
            bindE (idx_back macd_signal 1) (\<lambda>s1.
            if \<not> fl_gt m1 s1 then Inr False
            else
              bindE (idx_back macd_signal 2) (\<lambda>s2.
              if \<not> fl_gt s1 s2 then Inr False
              else if \<not> fl_gt m2 s2 then Inr False
              else
                (case down_cross st symbol of
                   Some (Some a) \<Rightarrow> Inr (close data < a)
                 | Some None \<Rightarrow> Inl TypeError
                 | None \<Rightarrow> Inl KeyError)))))))"

text \<open>The retry loop around \<open>get_account()\<close>: \<open>retry\<close> attempts are left, \<open>calls\<close>
  calls have been made. It returns the portfolio value, or \<open>None\<close> when every attempt
  failed to connect, and the number of calls made. Any other exception leaves the loop.\<close>

fun get_account_retry ::
  "trading_api \<Rightarrow> nat \<Rightarrow> nat \<Rightarrow> (error + real option) \<times> nat" where
  "get_account_retry api 0 calls = (Inr None, calls)"
| "get_account_retry api (Suc retry) calls =
     (case api calls of
        Fetched v \<Rightarrow> (Inr (Some v), Suc calls)
      | ConnectionError \<Rightarrow> get_account_retry api retry (Suc calls)
      | OtherFailure \<Rightarrow> (Inl ApiFailure, Suc calls))"

text \<open>The share count and the order, once a portfolio value is at hand.\<close>

definition shares_to_buy :: "env \<Rightarrow> real \<Rightarrow> real \<Rightarrow> real \<Rightarrow> int \<Rightarrow> fl" where
  "shares_to_buy e portfolio_value c stop position =
     (let s = np_floordiv (dbl (portfolio_value * risk e)) (dbl (c - stop));
          s' = (if \<not> fl_truthy s then Fin 1 else s)
      in fl_sub_int s' position)"

definition submit_buy ::
  "env \<Rightarrow> state \<Rightarrow> symbol \<Rightarrow> int \<Rightarrow> bar \<Rightarrow> bool \<Rightarrow> fl list \<Rightarrow> fl list \<Rightarrow> real
     \<Rightarrow> outcome \<times> state" where
  "submit_buy e st symbol position data rush macd macd_signal portfolio_value =
     (case lookup (stop_prices st) symbol of
        Inl err \<Rightarrow> (Raised err, st)
      | Inr stop \<Rightarrow>
          (let n = shares_to_buy e portfolio_value (close data) stop position
           in if fl_gt n (Fin 0)
              then (Returned (Submit (Order Buy (FloatQty n)
                      (if \<not> rush then Limit (max (close data) (vwap data)) else Market))),
                    st\<lparr>whipsawed := (whipsawed st)(symbol \<mapsto> False),
                       buy_indicators := (buy_indicators st)(symbol \<mapsto>
                         \<lparr>b_macd = last_n 5 macd, b_macd_signal = last_n 5 macd_signal,
                          b_vwap = vwap data, b_avg = average data,
                          b_reason = [''MACD signal'']\<rparr>)\<rparr>)
              else (Returned NoAction, st)))"

text \<open>From the stop and target prices on: both are stored first, then the portfolio value
  is taken from the caller or fetched.\<close>

definition price_and_size ::
  "env \<Rightarrow> state \<Rightarrow> symbol \<Rightarrow> int \<Rightarrow> bar \<Rightarrow> bool \<Rightarrow> fl list \<Rightarrow> fl list
     \<Rightarrow> real option \<Rightarrow> trading_api option \<Rightarrow> outcome \<times> state" where
  "price_and_size e st symbol position data rush macd macd_signal portfolio_value api =
     (case down_cross st symbol of
        None \<Rightarrow> (Raised KeyError, st)
      | Some None \<Rightarrow> (Raised TypeError, st)
      | Some (Some a) \<Rightarrow>
          (let stop_price = dbl (close data * dbl (96 / 100));
               target_price = dbl (a * dbl (112 / 100));
               st1 = st\<lparr>target_prices := (target_prices st)(symbol \<mapsto> target_price),
                        stop_prices := (stop_prices st)(symbol \<mapsto> stop_price)\<rparr>
           in case portfolio_value of
                Some v \<Rightarrow> submit_buy e st1 symbol position data rush macd macd_signal v
              | None \<Rightarrow>
                  (case api of
                     None \<Rightarrow> (Raised ConfigError, st1)
                   | Some f \<Rightarrow>
                       (case fst (get_account_retry f 3 0) of
                          Inl err \<Rightarrow> (Raised err, st1)
                        | Inr None \<Rightarrow> (Returned NoAction, st1)
                        | Inr (Some v) \<Rightarrow>
                            if v = 0 then (Returned NoAction, st1)
                            else submit_buy e st1 symbol position data rush
                                   macd macd_signal v))))"

text \<open>The overbought test before the buy.\<close>

definition risk_gate ::
  "env \<Rightarrow> state \<Rightarrow> symbol \<Rightarrow> int \<Rightarrow> bar list \<Rightarrow> bar \<Rightarrow> datetime \<Rightarrow> bool
     \<Rightarrow> fl list \<Rightarrow> fl list \<Rightarrow> real option \<Rightarrow> trading_api option \<Rightarrow> outcome \<times> state" where
  "risk_gate e st symbol position h data now rush macd macd_signal portfolio_value api =
     (case idx_back (RSI e (session_close h) 14) 1 of
        Inl err \<Rightarrow> (Raised err, st)
      | Inr r \<Rightarrow>
          if fl_lt r (Fin 75)
          then price_and_size e st symbol position data rush macd macd_signal
                 portfolio_value api
          else (Returned NoAction,
                st\<lparr>cool_down := (cool_down st)(symbol \<mapsto>
                      Some (replace_sec0 now + minutes 5))\<rparr>))"

definition run_buy ::
  "env \<Rightarrow> state \<Rightarrow> symbol \<Rightarrow> int \<Rightarrow> bar list \<Rightarrow> bar \<Rightarrow> datetime \<Rightarrow> bool
     \<Rightarrow> real option \<Rightarrow> trading_api option \<Rightarrow> outcome \<times> state" where
  "run_buy e st symbol position h data now rush portfolio_value api =
     (case MACD e (close_5min h) 13 21 of
        (macd, macd_signal) \<Rightarrow>
          (case zero_cross st symbol macd of
             Inl err \<Rightarrow> (Raised err, st)
           | Inr DownCross \<Rightarrow>
               (Returned NoAction,
                st\<lparr>down_cross := (down_cross st)(symbol \<mapsto> Some (close data))\<rparr>)
           | Inr UpCross \<Rightarrow>
               (Returned NoAction, st\<lparr>down_cross := (down_cross st)(symbol \<mapsto> None)\<rparr>)
           | Inr NoCross \<Rightarrow>
               (case to_buy st symbol macd macd_signal data of
                  Inl err \<Rightarrow> (Raised err, st)
                | Inr False \<Rightarrow> (Returned NoAction, st)
                | Inr True \<Rightarrow>
                    risk_gate e st symbol position h data now rush macd macd_signal
                      portfolio_value api)))"

section \<open>Exit decision engine\<close>

text \<open>The condition of the second branch of \<open>run\<close>.\<close>

definition sell_guard :: "env \<Rightarrow> state \<Rightarrow> symbol \<Rightarrow> int \<Rightarrow> datetime \<Rightarrow> error + bool" where
  "sell_guard e st symbol position now =
     (if is_sell_time e now \<and> 0 < position \<and> latest_cost_basis st symbol \<noteq> None
      then bindE (lookup (last_used_strategy st) symbol) (\<lambda>n.
             Inr (n = strategy_name \<and> open_orders st symbol \<noteq> Some True))
      else Inr False)"

definition whipsaw_update :: "state \<Rightarrow> symbol \<Rightarrow> bar \<Rightarrow> error + state" where
  "whipsaw_update st symbol data =
     (if whipsawed st symbol = Some True then Inr st
      else bindE (lookup (latest_cost_basis st) symbol) (\<lambda>cb.
             Inr (if close data < cb * (99 / 100)
                  then st\<lparr>whipsawed := (whipsawed st)(symbol \<mapsto> True)\<rparr> else st)))"

text \<open>The session closes with the last one replaced by the bar's VWAP when that is not
  zero; the assignment \<open>serie[-1] = data.vwap\<close> fails on an empty series.\<close>

definition fine_serie :: "bar list \<Rightarrow> bar \<Rightarrow> error + real list" where
  "fine_serie h data =
     (let serie = session_close h
      in if vwap data \<noteq> 0
         then (if serie = [] then Inl IndexError
               else Inr (serie[length serie - 1 := vwap data]))
         else Inr serie)"

definition round_factor :: "fl \<Rightarrow> fl \<Rightarrow> nat" where
  "round_factor macd_val macd_signal_val =
     (if fl_ge macd_val (Fin (1 / 10)) \<or> fl_ge macd_signal_val (Fin (1 / 10)) then 2 else 3)"

definition macd_below_signal :: "fl \<Rightarrow> fl \<Rightarrow> bool" where
  "macd_below_signal macd_val macd_signal_val =
     fl_lt (py_round macd_val (round_factor macd_val macd_signal_val))
           (py_round macd_signal_val (round_factor macd_val macd_signal_val))"

text \<open>\<open>round(macd[-1], round_factor) < round(macd[-2], round_factor)\<close>.\<close>

definition macd_falling :: "fl list \<Rightarrow> nat \<Rightarrow> error + bool" where
  "macd_falling macd rf =
     bindE (idx_back macd 1) (\<lambda>m1.
     bindE (idx_back macd 2) (\<lambda>m2.
     Inr (fl_lt (py_round m1 rf) (py_round m2 rf))))"

record sell_calc =
  c_rsi :: "fl list"
  c_macd :: "fl list"
  c_macd_signal :: "fl list"
  c_movement :: fl
  c_bail_out :: bool
  c_bail_on_whipsawed :: bool
  c_scalp :: bool

text \<open>Everything the exit branch computes before its chain of conditions, in the order
  of the source, so that the first failing read is the one that raises.\<close>

definition exit_calc :: "env \<Rightarrow> state \<Rightarrow> symbol \<Rightarrow> bar list \<Rightarrow> bar \<Rightarrow> error + sell_calc" where
  "exit_calc e st symbol h data =
     bindE (fine_serie h data) (\<lambda>serie.
     case MACD e serie 13 21 of (macd, macd_signal) \<Rightarrow>
     let rsi = RSI e (session_close h) 14 in
     bindE (lookup (latest_scalp_basis st) symbol) (\<lambda>sb.
     let movement = np_div (close data - sb) sb in
     bindE (lookup (buy_time st) symbol) (\<lambda>bt.
     let max_movement =
           (case max_close_since h bt of None \<Rightarrow> NaN | Some m \<Rightarrow> np_div (m - sb) sb) in
     bindE (idx_back macd 1) (\<lambda>macd_val.
     bindE (idx_back macd_signal 1) (\<lambda>macd_signal_val.
     let rf = round_factor macd_val macd_signal_val in
     bindE (lookup (target_prices st) symbol) (\<lambda>target.
     let scalp_threshold = (target + sb) / 2;
         below = macd_below_signal macd_val macd_signal_val in
     bindE (lookup (latest_cost_basis st) symbol) (\<lambda>cb.
     bindE (if (cb < sb \<or> (fl_gt max_movement (Fin (2 / 100)) \<and> fl_gt max_movement movement))
               \<and> below
            then macd_falling macd rf else Inr False) (\<lambda>bail_out.
     bindE (if whipsawed st symbol = Some True \<and> fl_gt movement (Fin (1 / 100)) \<and> below
            then macd_falling macd rf else Inr False) (\<lambda>bail_on_whipsawed.
     Inr \<lparr>c_rsi = rsi, c_macd = macd, c_macd_signal = macd_signal, c_movement = movement,
          c_bail_out = bail_out, c_bail_on_whipsawed = bail_on_whipsawed,
          c_scalp = (fl_gt movement (Fin (4 / 100)) \<or> scalp_threshold < vwap data)\<rparr>)))))))))"

text \<open>The \<open>if\<close>/\<open>elif\<close> chain: the first condition that holds names the reason.\<close>

definition sell_chain ::
  "state \<Rightarrow> symbol \<Rightarrow> sell_calc \<Rightarrow> bar \<Rightarrow> bool \<Rightarrow> error + sell_reason option" where
  "sell_chain st symbol c data rush =
     bindE (lookup (stop_prices st) symbol) (\<lambda>stop.
     if close data \<le> stop then Inr (Some Stopped)
     else
       bindE (lookup (target_prices st) symbol) (\<lambda>target.
       bindE (if target \<le> close data
              then bindE (idx_back (c_macd c) 1) (\<lambda>m1. Inr (fl_le m1 (Fin 0)))
              else Inr False) (\<lambda>above.
       if above then Inr (Some AboveTarget)
       else
         bindE (idx_back (c_rsi c) 1) (\<lambda>r.
         if fl_ge r (Fin (if \<not> rush then 79 else 85)) then Inr (Some RsiMax)
         else if c_bail_out c then Inr (Some Bail)
         else if c_scalp c then Inr (Some ScaleOut)
         else if c_bail_on_whipsawed c then Inr (Some BailPostWhipsawed)
         else Inr None))))"

text \<open>The order for a reason, through the flags \<open>partial_sell\<close> and \<open>limit_sell\<close>.\<close>

definition partial_sell :: "sell_reason \<Rightarrow> bool" where
  "partial_sell r = (r = ScaleOut)"

definition limit_sell :: "sell_reason \<Rightarrow> bool" where
  "limit_sell r = (r = BailPostWhipsawed)"

definition sell_order :: "sell_reason \<Rightarrow> int \<Rightarrow> bar \<Rightarrow> order" where
  "sell_order r position data =
     (if \<not> partial_sell r
      then (if \<not> limit_sell r then Order Sell (IntQty position) Market
            else Order Sell (IntQty position) (Limit (close data)))
      else Order Sell (IntQty (if 1 < position then position div 2 else 1))
             (Limit (close data)))"

text \<open>The writes of a selling path: the cooldown of the overbought exit, then the audit
  record.\<close>

definition record_sell ::
  "state \<Rightarrow> symbol \<Rightarrow> sell_calc \<Rightarrow> bar \<Rightarrow> datetime \<Rightarrow> sell_reason \<Rightarrow> state" where
  "record_sell st symbol c data now r =
     (let st1 = (if r = RsiMax
                 then st\<lparr>cool_down := (cool_down st)(symbol \<mapsto>
                           Some (replace_sec0 now + minutes 5))\<rparr>
                 else st)
      in st1\<lparr>sell_indicators := (sell_indicators st1)(symbol \<mapsto>
               \<lparr>s_rsi = last_n 3 (c_rsi c), s_movement = c_movement c,
                s_macd = last_n 5 (c_macd c), s_macd_signal = last_n 5 (c_macd_signal c),
                s_vwap = vwap data, s_avg = average data, s_reasons = [r]\<rparr>)\<rparr>)"

definition run_sell ::
  "env \<Rightarrow> state \<Rightarrow> symbol \<Rightarrow> int \<Rightarrow> bar list \<Rightarrow> bar \<Rightarrow> datetime \<Rightarrow> bool \<Rightarrow> outcome \<times> state" where
  "run_sell e st symbol position h data now rush =
     (case whipsaw_update st symbol data of
        Inl err \<Rightarrow> (Raised err, st)
      | Inr st1 \<Rightarrow>
          (case exit_calc e st1 symbol h data of
             Inl err \<Rightarrow> (Raised err, st1)
           | Inr c \<Rightarrow>
               (case sell_chain st1 symbol c data rush of
                  Inl err \<Rightarrow> (Raised err, st1)
                | Inr None \<Rightarrow> (Returned NoAction, st1)
                | Inr (Some r) \<Rightarrow>
                    (Returned (Submit (sell_order r position data)),
                     record_sell st1 symbol c data now r))))"

section \<open>The evaluation of one bar\<close>

text \<open>
  \<open>run\<close>: the last two rows of the history are read first (an \<open>IndexError\<close> on fewer
  than two), then one of the two branches is taken, and whatever falls through returns
  \<open>(False, {})\<close>. The parameters \<open>shortable\<close>, \<open>debug\<close> and \<open>backtesting\<close> only
  change what is logged and are left out.
\<close>

definition run ::
  "env \<Rightarrow> state \<Rightarrow> symbol \<Rightarrow> int \<Rightarrow> bar list \<Rightarrow> datetime \<Rightarrow> real option
     \<Rightarrow> trading_api option \<Rightarrow> outcome \<times> state" where
  "run e st symbol position minute_history now portfolio_value api =
     (if length minute_history < 2 then (Raised IndexError, st)
      else
        (let data = last minute_history; rush = morning_rush e now
         in case buy_guard e st symbol position data now of
              (True, st1) \<Rightarrow>
                run_buy e st1 symbol position minute_history data now rush
                  portfolio_value api
            | (False, st1) \<Rightarrow>
                (case sell_guard e st1 symbol position now of
                   Inl err \<Rightarrow> (Raised err, st1)
                 | Inr True \<Rightarrow> run_sell e st1 symbol position minute_history data now rush
                 | Inr False \<Rightarrow> (Returned NoAction, st1))))"

section \<open>Sample inputs\<close>

text \<open>
  Concrete inputs on which the theorems below are exercised. The sample indicator
  functions stand in for the library: the oscillator of a close \<open>x\<close> is \<open>x - 60\<close>, its
  signal line an exponential average of the oscillator (weight one fifth, started at
  \<open>-14\<close>), the bounded oscillator \<open>x\<close> itself. \<open>padded_env\<close> keeps the library's
  look-back: the first 28 readings of the oscillator and its signal line and the first
  14 of the bounded oscillator are NaN.
\<close>

fun ema :: "real \<Rightarrow> real list \<Rightarrow> real list" where
  "ema p [] = []"
| "ema p (x # xs) = (p + (x - p) / 5) # ema (p + (x - p) / 5) xs"

definition sample_macd :: "real list \<Rightarrow> real list" where
  "sample_macd xs = map (\<lambda>x. x - 60) xs"

definition pad_nan :: "nat \<Rightarrow> fl list \<Rightarrow> fl list" where
  "pad_nan k ys = replicate (min k (length ys)) NaN @ drop k ys"

definition example_env :: env where
  "example_env =
     \<lparr>market_open = minutes 570, risk = dbl (1 / 100),
      is_buy_time = (\<lambda>t. t < minutes 900), is_sell_time = (\<lambda>t. True),
      MACD = (\<lambda>xs fast slow. (map Fin (sample_macd xs), map Fin (ema (- 14) (sample_macd xs)))),
      RSI = (\<lambda>xs n. map Fin xs)\<rparr>"

definition padded_env :: env where
  "padded_env =
     example_env\<lparr>
       MACD := (\<lambda>xs fast slow. (pad_nan 28 (map Fin (sample_macd xs)),
                                 pad_nan 28 (map Fin (ema (- 14) (sample_macd xs))))),
       RSI := (\<lambda>xs n. pad_nan n (map Fin xs))\<rparr>"

text \<open>The same with a bounded oscillator that reads 30 higher.\<close>

definition hot_env :: env where
  "hot_env = example_env\<lparr>RSI := (\<lambda>xs n. map (\<lambda>x. Fin (x + 30)) xs)\<rparr>"

definition empty_state :: state where
  "empty_state =
     \<lparr>cool_down = Map.empty, down_cross = Map.empty, whipsawed = Map.empty,
      target_prices = Map.empty, stop_prices = Map.empty,
      latest_cost_basis = Map.empty, latest_scalp_basis = Map.empty,
      buy_time = Map.empty, last_used_strategy = Map.empty, open_orders = Map.empty,
      buy_indicators = Map.empty, sell_indicators = Map.empty\<rparr>"

text \<open>A bar at minute \<open>m\<close> of the day with close \<open>c\<close> and volume \<open>v\<close>.\<close>

definition mk_bar :: "int \<Rightarrow> real \<Rightarrow> real \<Rightarrow> bar" where
  "mk_bar m c v = \<lparr>ts = minutes m, close = c, volume = v, vwap = c, average = c\<rparr>"

definition rising_history :: "bar list" where
  "rising_history = [mk_bar 630 48 1000, mk_bar 635 49 1000, mk_bar 640 50 1000]"

definition plateau_history :: "bar list" where
  "plateau_history = [mk_bar 630 46 1000, mk_bar 635 48 1000, mk_bar 640 48 1000]"


definition short_history :: "bar list" where
  "short_history = [mk_bar 639 49 1000, mk_bar 640 47 1000]"

text \<open>10:40:30.\<close>

definition sample_now :: datetime where
  "sample_now = minutes 640 + 30000000"

definition anchored_state :: state where
  "anchored_state =
     empty_state\<lparr>down_cross := [''AAPL'' \<mapsto> Some 52],
                 target_prices := [''AAPL'' \<mapsto> 70], stop_prices := [''AAPL'' \<mapsto> 40]\<rparr>"

text \<open>A position bought at 50 (stop 48, target 56) whose scalp basis a later fill has
  moved to 40.\<close>

definition holding_state :: state where
  "holding_state =
     empty_state\<lparr>latest_cost_basis := [''AAPL'' \<mapsto> 50],
                 latest_scalp_basis := [''AAPL'' \<mapsto> 40],
                 target_prices := [''AAPL'' \<mapsto> 56], stop_prices := [''AAPL'' \<mapsto> 48],
                 buy_time := [''AAPL'' \<mapsto> minutes 600],
                 last_used_strategy := [''AAPL'' \<mapsto> strategy_name]\<rparr>"

text \<open>A position for which only the cost basis and the owning strategy are on record.\<close>

definition bare_state :: state where
  "bare_state =
     empty_state\<lparr>latest_cost_basis := [''AAPL'' \<mapsto> 50],
                 last_used_strategy := [''AAPL'' \<mapsto> strategy_name]\<rparr>"

definition always_down :: trading_api where
  "always_down k = ConnectionError"

section \<open>Unfolding rules\<close>

lemmas double_defs = expo.simps ulp_round_def dbl_def trunc_def fmod_def floordiv_adjust_def
  floordiv_snap_to_def floordiv_snap_def np_floordiv_def fl_sub_int_def round_half_even_def
  py_round_def

lemmas number_defs = fl_gt_def fl_ge_def np_div_def fl_truthy_def minutes_def replace_sec0_def
  timedelta_seconds_def idx_back_def lookup_def last_n_def bindE_def

lemmas pipeline_defs = time_of_day_def in_session_def session_bars_def session_close_def
  bucket5_def close_5min_def max_close_since_def

lemmas entry_defs = anchor_set_def morning_rush_def buy_guard_def should_cool_down_def
  zero_cross_def to_buy_def shares_to_buy_def submit_buy_def price_and_size_def
  risk_gate_def run_buy_def

lemmas exit_defs = sell_guard_def whipsaw_update_def fine_serie_def round_factor_def
  macd_below_signal_def macd_falling_def exit_calc_def sell_chain_def partial_sell_def
  limit_sell_def sell_order_def record_sell_def run_sell_def strategy_name_def

lemmas sample_defs = pad_nan_def sample_macd_def example_env_def padded_env_def hot_env_def
  empty_state_def mk_bar_def rising_history_def plateau_history_def short_history_def
  sample_now_def anchored_state_def holding_state_def bare_state_def always_down_def

section \<open>Double arithmetic\<close>

text \<open>The rounding error of \<open>dbl\<close> is at most \<open>2^-53\<close> of the value, and integers below
  \<open>2^53\<close> in magnitude are doubles.\<close>

lemma round_half_even_error: "\<bar>of_int (round_half_even r) - r\<bar> \<le> 1 / 2"
  unfolding round_half_even_def Let_def by (auto simp add: abs_if; linarith)


lemma pow2_succ: "(2::real) powi (k + 1) = 2 * 2 powi k"
  by (simp add: power_int_add)

lemma pow2_pred: "(2::real) powi (k - 1) = 2 powi k / 2"
  by (simp add: power_int_diff)

lemma expo_bounds:
  "x \<noteq> 0 \<Longrightarrow> 2 powi expo x \<le> \<bar>x\<bar> \<and> \<bar>x\<bar> < 2 powi (expo x + 1)"
proof (induction x rule: expo.induct)
  case (1 x)
  show ?case
  proof (cases "2 \<le> \<bar>x\<bar>")
    case True
    then have e: "expo x = expo (x / 2) + 1"
      using "1.prems" by (subst expo.simps) simp
    have "2 powi expo (x / 2) \<le> \<bar>x / 2\<bar> \<and> \<bar>x / 2\<bar> < 2 powi (expo (x / 2) + 1)"
      using "1.IH"(1) [OF "1.prems" True] "1.prems" by simp
    then have "2 * 2 powi expo (x / 2) \<le> \<bar>x\<bar> \<and> \<bar>x\<bar> < 2 * 2 powi (expo (x / 2) + 1)"
      by simp
    then show ?thesis
      unfolding e pow2_succ [of "expo (x / 2) + 1"] pow2_succ [of "expo (x / 2)"] by simp
  next
    case False
    show ?thesis
    proof (cases "\<bar>x\<bar> < 1")
      case True
      then have e: "expo x = expo (x * 2) - 1"
        using "1.prems" False by (subst expo.simps) simp
      have "2 powi expo (x * 2) \<le> \<bar>x * 2\<bar> \<and> \<bar>x * 2\<bar> < 2 powi (expo (x * 2) + 1)"
        using "1.IH"(2) [OF "1.prems" False True] "1.prems" by simp
      then have "2 powi expo (x * 2) / 2 \<le> \<bar>x\<bar> \<and> \<bar>x\<bar> < 2 powi expo (x * 2)"
        unfolding pow2_succ by (simp add: abs_mult)
      then show ?thesis
        unfolding e pow2_pred by simp
    next
      case small: False
      then have e: "expo x = 0"
        using "1.prems" False by (subst expo.simps) simp
      show ?thesis
        unfolding e using False small by simp
    qed
  qed
qed

lemma dbl_zero: "dbl 0 = 0"
  by (simp add: dbl_def ulp_round_def round_half_even_def)

lemma dbl_error: "\<bar>dbl x - x\<bar> \<le> \<bar>x\<bar> / 2 ^ 53"
proof (cases "x = 0")
  case True
  then show ?thesis by (simp add: dbl_zero)
next
  case False
  define u :: real where "u = 2 powi (expo x - 52)"
  have u_pos: "0 < u" by (simp add: u_def)
  have u_eq: "u = 2 powi expo x / 2 ^ 52"
    by (simp add: u_def power_int_diff)
  have "u \<le> \<bar>x\<bar> / 2 ^ 52"
    unfolding u_eq using expo_bounds [OF False] by (simp add: divide_right_mono)
  then have half: "u / 2 \<le> \<bar>x\<bar> / 2 ^ 53" by simp
  have "dbl x - x = (of_int (round_half_even (x / u)) - x / u) * u"
    using u_pos by (simp add: dbl_def ulp_round_def u_def [symmetric] algebra_simps)
  then have "\<bar>dbl x - x\<bar> = \<bar>of_int (round_half_even (x / u)) - x / u\<bar> * u"
    using u_pos by (simp add: abs_mult)
  also have "\<dots> \<le> (1 / 2) * u"
    using round_half_even_error [of "x / u"] u_pos by (intro mult_right_mono) simp_all
  finally show ?thesis using half by simp
qed





section \<open>The two branches of the evaluation\<close>

lemma sell_guard_position:
  "sell_guard e st symbol position now = Inr True \<Longrightarrow> 0 < position"
  by (simp add: sell_guard_def split: if_splits)

lemma buy_guard_holding:
  "0 < position \<Longrightarrow> buy_guard e st symbol position data now = (False, st)"
  by (simp add: buy_guard_def)

lemma sell_guard_flat: "sell_guard e st symbol 0 now = Inr False"
  by (simp add: sell_guard_def)

lemma run_entry_branch:
  assumes "2 \<le> length h" and "buy_guard e st symbol position (last h) now = (True, st1)"
  shows "run e st symbol position h now pv api =
           run_buy e st1 symbol position h (last h) now (morning_rush e now) pv api"
  using assms by (simp add: run_def)

lemma run_exit_branch:
  assumes "2 \<le> length h" and "sell_guard e st symbol position now = Inr True"
  shows "run e st symbol position h now pv api =
           run_sell e st symbol position h (last h) now (morning_rush e now)"
  using assms buy_guard_holding [OF sell_guard_position [OF assms(2)]]
  by (simp add: run_def)

section \<open>Cooldown\<close>

lemma replace_sec0_minute:
  "replace_sec0 t mod 60000000 = 0 \<and> replace_sec0 t \<le> t \<and> t < replace_sec0 t + 60000000"
  unfolding replace_sec0_def
  by (simp add: minus_mod_eq_mult_div [symmetric])

text \<open>
  Claim C6. An entry evaluation (buy window, no position, no pending order) whose
  symbol has a \<open>cool_down\<close> entry at or after the current minute stops with no action
  and leaves the state as it was. In every other case \<open>should_cool_down\<close> answers
  \<open>False\<close> and stores \<open>None\<close> for the symbol, a second call on that state with the
  same time answers \<open>False\<close> again, and the evaluation goes on to the entry engine when
  the volume test passes.
\<close>

theorem cooldown_one_shot:
  assumes "2 \<le> length h" and "is_buy_time e now" and "position = 0"
      and "open_orders st symbol \<noteq> Some True"
  shows "if (\<exists>t. cool_down st symbol = Some (Some t) \<and> replace_sec0 now \<le> t)
         then should_cool_down st symbol now = (True, st)
              \<and> run e st symbol position h now pv api = (Returned NoAction, st)
         else should_cool_down st symbol now
                = (False, st\<lparr>cool_down := (cool_down st)(symbol \<mapsto> None)\<rparr>)
              \<and> should_cool_down (st\<lparr>cool_down := (cool_down st)(symbol \<mapsto> None)\<rparr>) symbol now
                = (False, st\<lparr>cool_down := (cool_down st)(symbol \<mapsto> None)\<rparr>)
              \<and> run e st symbol position h now pv api
                = (if 500 < volume (last h)
                   then run_buy e (st\<lparr>cool_down := (cool_down st)(symbol \<mapsto> None)\<rparr>) symbol
                          position h (last h) now (morning_rush e now) pv api
                   else (Returned NoAction, st\<lparr>cool_down := (cool_down st)(symbol \<mapsto> None)\<rparr>))"
proof (cases "\<exists>t. cool_down st symbol = Some (Some t) \<and> replace_sec0 now \<le> t")
  case True
  then obtain t where t: "cool_down st symbol = Some (Some t)" "replace_sec0 now \<le> t"
    by blast
  have scd: "should_cool_down st symbol now = (True, st)"
    using t by (simp add: should_cool_down_def)
  have "buy_guard e st symbol position (last h) now = (False, st)"
    using assms scd by (simp add: buy_guard_def)
  then have "run e st symbol position h now pv api = (Returned NoAction, st)"
    using assms(1,3) by (simp add: run_def sell_guard_flat)
  with True scd show ?thesis by simp
next
  case False
  let ?st' = "st\<lparr>cool_down := (cool_down st)(symbol \<mapsto> None)\<rparr>"
  have scd: "should_cool_down st symbol now = (False, ?st')"
    using False by (auto simp add: should_cool_down_def split: option.splits)
  have again: "should_cool_down ?st' symbol now = (False, ?st')"
    by (simp add: should_cool_down_def)
  have bg: "buy_guard e st symbol position (last h) now = (500 < volume (last h), ?st')"
    using assms scd by (simp add: buy_guard_def)
  have "run e st symbol position h now pv api
          = (if 500 < volume (last h)
             then run_buy e ?st' symbol position h (last h) now (morning_rush e now) pv api
             else (Returned NoAction, ?st'))"
    using assms(1,3) bg by (simp add: run_def sell_guard_flat)
  with False scd again show ?thesis by simp
qed

theorem cooldown_one_shot_witness:
  "run example_env (anchored_state\<lparr>cool_down := [''AAPL'' \<mapsto> Some (minutes 645)]\<rparr>)
       ''AAPL'' 0 rising_history sample_now (Some 100000) None
     = (Returned NoAction, anchored_state\<lparr>cool_down := [''AAPL'' \<mapsto> Some (minutes 645)]\<rparr>)
   \<and> should_cool_down (anchored_state\<lparr>cool_down := [''AAPL'' \<mapsto> Some (minutes 635)]\<rparr>)
        ''AAPL'' sample_now
     = (False, anchored_state\<lparr>cool_down := [''AAPL'' \<mapsto> None]\<rparr>)"
proof -
  have h: "2 \<le> length rising_history" "is_buy_time example_env sample_now" "(0::int) = 0"
    by (simp_all add: sample_defs number_defs)
  have h': "open_orders (anchored_state\<lparr>cool_down := [''AAPL'' \<mapsto> Some (minutes 645)]\<rparr>)
              ''AAPL'' \<noteq> Some True"
    "open_orders (anchored_state\<lparr>cool_down := [''AAPL'' \<mapsto> Some (minutes 635)]\<rparr>)
              ''AAPL'' \<noteq> Some True"
    by (simp_all add: sample_defs number_defs)
  show ?thesis
    using cooldown_one_shot [OF h h'(1), of "Some 100000" None]
      cooldown_one_shot [OF h h'(2), of "Some 100000" None]
    by (simp add: sample_defs number_defs)
qed

section \<open>Trend confirmation\<close>

lemma zero_cross_anchored:
  assumes "anchor_set st symbol" and "idx_back macd 1 = Inr m1" and "idx_back macd 2 = Inr m2"
  shows "zero_cross st symbol macd = Inr (if fl_ge m1 (Fin 0) then UpCross else NoCross)"
  using assms by (simp add: zero_cross_def bindE_def)

lemma to_buy_anchored:
  assumes "down_cross st symbol = Some (Some a)" and "a \<noteq> 0"
      and "idx_back macd 1 = Inr m1" and "idx_back macd 2 = Inr m2" and "idx_back macd 3 = Inr m3"
      and "idx_back macd_signal 1 = Inr s1" and "idx_back macd_signal 2 = Inr s2"
  shows "to_buy st symbol macd macd_signal data =
           Inr (fl_gt m1 m2 \<and> fl_gt m2 m3 \<and> fl_gt m1 s1 \<and> fl_gt s1 s2 \<and> fl_gt m2 s2
                \<and> close data < a)"
  using assms by (simp add: to_buy_def bindE_def anchor_set_def)

text \<open>
  Claim C2, as the code has it. In an entry evaluation with an anchor stored for the
  symbol, five readable oscillator and signal readings and a latest oscillator reading
  that is not at or above zero (which would clear the anchor instead), the evaluation
  goes on to the risk gate exactly when the last three oscillator readings are strictly
  increasing, the latest is above its signal, the signal is above its previous value,
  the previous oscillator reading is above the previous signal, and the close is below
  the anchor. Otherwise it returns no action and leaves the state as the eligibility
  checks left it.
\<close>

theorem trend_confirmation:
  assumes "2 \<le> length h"
      and "buy_guard e st0 symbol position (last h) now = (True, st)"
      and "down_cross st symbol = Some (Some a)" and "a \<noteq> 0"
      and "MACD e (close_5min h) 13 21 = (macd, macd_signal)"
      and "idx_back macd 1 = Inr m1" and "idx_back macd 2 = Inr m2"
      and "idx_back macd 3 = Inr m3"
      and "idx_back macd_signal 1 = Inr s1" and "idx_back macd_signal 2 = Inr s2"
      and "\<not> fl_ge m1 (Fin 0)"
  shows "run e st0 symbol position h now pv api =
           (if fl_gt m1 m2 \<and> fl_gt m2 m3 \<and> fl_gt m1 s1 \<and> fl_gt s1 s2 \<and> fl_gt m2 s2
               \<and> close (last h) < a
            then risk_gate e st symbol position h (last h) now (morning_rush e now)
                   macd macd_signal pv api
            else (Returned NoAction, st))"
proof -
  have anchor: "anchor_set st symbol"
    using assms(3,4) by (simp add: anchor_set_def)
  have zc: "zero_cross st symbol macd = Inr NoCross"
    using zero_cross_anchored [OF anchor assms(6,7)] assms(11) by simp
  have tb: "to_buy st symbol macd macd_signal (last h) =
              Inr (fl_gt m1 m2 \<and> fl_gt m2 m3 \<and> fl_gt m1 s1 \<and> fl_gt s1 s2 \<and> fl_gt m2 s2
                   \<and> close (last h) < a)"
    by (rule to_buy_anchored [OF assms(3,4,6,7,8,9,10)])
  have "run e st0 symbol position h now pv api =
          run_buy e st symbol position h (last h) now (morning_rush e now) pv api"
    by (rule run_entry_branch [OF assms(1,2)])
  then show ?thesis
    using assms(5) zc tb by (auto simp add: run_buy_def)
qed

theorem trend_confirmation_witness:
  "fst (run example_env anchored_state ''AAPL'' 0 rising_history sample_now (Some 100000) None)
     = Returned (Submit (Order Buy (FloatQty (Fin 500)) (Limit 50)))"
proof -
  let ?st = "anchored_state\<lparr>cool_down := [''AAPL'' \<mapsto> None]\<rparr>"
  let ?macd = "[Fin (- 12), Fin (- 11), Fin (- 10)]"
  let ?sig = "[Fin (- 68 / 5), Fin (- 327 / 25), Fin (- 1558 / 125)]"
  have h1: "2 \<le> length rising_history" by (simp add: sample_defs)
  have h2: "buy_guard example_env anchored_state ''AAPL'' 0 (last rising_history) sample_now
              = (True, ?st)"
    by (simp add: sample_defs number_defs entry_defs)
  have h3: "down_cross ?st ''AAPL'' = Some (Some 52)" "(52::real) \<noteq> 0"
    by (simp_all add: sample_defs)
  have h4: "MACD example_env (close_5min rising_history) 13 21 = (?macd, ?sig)"
    by (simp add: sample_defs number_defs pipeline_defs)
  have h5: "idx_back ?macd 1 = Inr (Fin (- 10))" "idx_back ?macd 2 = Inr (Fin (- 11))"
    "idx_back ?macd 3 = Inr (Fin (- 12))" "idx_back ?sig 1 = Inr (Fin (- 1558 / 125))"
    "idx_back ?sig 2 = Inr (Fin (- 327 / 25))"
    by (simp_all add: idx_back_def)
  have h6: "\<not> fl_ge (Fin (- 10)) (Fin 0)" by (simp add: fl_ge_def)
  show ?thesis
    using trend_confirmation [OF h1 h2 h3 h4 h5 h6, of "Some 100000" None]
    by (simp add: sample_defs number_defs pipeline_defs entry_defs double_defs
        split del: if_split)
qed

text \<open>
  Claim C2 as the spec words it, with non-decreasing readings, fails: on the sample
  plateau the oscillator reads \<open>-14, -12, -12\<close>, every other condition of the claim
  holds, and the evaluation ends with no action, although the risk gate would have let
  the buy through.
\<close>

theorem trend_nondecreasing_counterexample:
  "MACD example_env (close_5min plateau_history) 13 21
     = ([Fin (- 14), Fin (- 12), Fin (- 12)], [Fin (- 14), Fin (- 68 / 5), Fin (- 332 / 25)])
   \<and> anchor_set anchored_state ''AAPL''
   \<and> fl_ge (Fin (- 12)) (Fin (- 12)) \<and> fl_ge (Fin (- 12)) (Fin (- 14))
   \<and> fl_gt (Fin (- 12)) (Fin (- 332 / 25)) \<and> fl_gt (Fin (- 332 / 25)) (Fin (- 68 / 5))
   \<and> fl_gt (Fin (- 12)) (Fin (- 68 / 5))
   \<and> close (last plateau_history) < 52
   \<and> run example_env anchored_state ''AAPL'' 0 plateau_history sample_now (Some 100000) None
       = (Returned NoAction, anchored_state\<lparr>cool_down := [''AAPL'' \<mapsto> None]\<rparr>)
   \<and> fst (risk_gate example_env (anchored_state\<lparr>cool_down := [''AAPL'' \<mapsto> None]\<rparr>) ''AAPL'' 0
            plateau_history (last plateau_history) sample_now False
            [Fin (- 14), Fin (- 12), Fin (- 12)] [Fin (- 14), Fin (- 68 / 5), Fin (- 332 / 25)]
            (Some 100000) None)
       = Returned (Submit (Order Buy (FloatQty (Fin 520)) (Limit 48)))"
  by (simp add: sample_defs number_defs pipeline_defs entry_defs run_def sell_guard_def
      double_defs split del: if_split)

section \<open>From the confirmed trend to the order\<close>

lemma run_buy_confirmed:
  assumes "MACD e (close_5min h) 13 21 = (macd, macd_signal)"
      and "zero_cross st symbol macd = Inr NoCross"
      and "to_buy st symbol macd macd_signal data = Inr True"
  shows "run_buy e st symbol position h data now rush pv api =
           risk_gate e st symbol position h data now rush macd macd_signal pv api"
  using assms by (simp add: run_buy_def)

lemma run_confirmed:
  assumes "2 \<le> length h"
      and "buy_guard e st0 symbol position (last h) now = (True, st)"
      and "MACD e (close_5min h) 13 21 = (macd, macd_signal)"
      and "zero_cross st symbol macd = Inr NoCross"
      and "to_buy st symbol macd macd_signal (last h) = Inr True"
  shows "run e st0 symbol position h now pv api =
           risk_gate e st symbol position h (last h) now (morning_rush e now)
             macd macd_signal pv api"
  using run_entry_branch [OF assms(1,2)] run_buy_confirmed [OF assms(3,4,5)] by simp

lemma to_buy_anchor:
  "to_buy st symbol macd macd_signal data = Inr True \<Longrightarrow>
     \<exists>a. down_cross st symbol = Some (Some a) \<and> a \<noteq> 0"
  by (auto simp add: to_buy_def anchor_set_def split: if_splits option.splits)

lemma risk_gate_pass:
  assumes "idx_back (RSI e (session_close h) 14) 1 = Inr r" and "fl_lt r (Fin 75)"
  shows "risk_gate e st symbol position h data now rush macd macd_signal pv api =
           price_and_size e st symbol position data rush macd macd_signal pv api"
  using assms by (simp add: risk_gate_def)

lemma run_sizing:
  assumes "2 \<le> length h"
      and "buy_guard e st0 symbol position (last h) now = (True, st)"
      and "MACD e (close_5min h) 13 21 = (macd, macd_signal)"
      and "zero_cross st symbol macd = Inr NoCross"
      and "to_buy st symbol macd macd_signal (last h) = Inr True"
      and "idx_back (RSI e (session_close h) 14) 1 = Inr r" and "fl_lt r (Fin 75)"
  shows "run e st0 symbol position h now pv api =
           price_and_size e st symbol position (last h) (morning_rush e now)
             macd macd_signal pv api"
  using run_confirmed [OF assms(1-5)] risk_gate_pass [OF assms(6,7)] by simp

text \<open>The sample entry: an anchor at 52, closes 48, 49, 50, evaluated at 10:40:30.\<close>

lemma sample_length: "2 \<le> length rising_history"
  by (simp add: sample_defs)

lemma sample_guard:
  "buy_guard example_env anchored_state ''AAPL'' 0 (last rising_history) sample_now
     = (True, anchored_state\<lparr>cool_down := [''AAPL'' \<mapsto> None]\<rparr>)"
  "buy_guard hot_env anchored_state ''AAPL'' 0 (last rising_history) sample_now
     = (True, anchored_state\<lparr>cool_down := [''AAPL'' \<mapsto> None]\<rparr>)"
  by (simp_all add: sample_defs number_defs entry_defs)

lemma sample_entry_macd:
  "MACD example_env (close_5min rising_history) 13 21
     = ([Fin (- 12), Fin (- 11), Fin (- 10)],
        [Fin (- 68 / 5), Fin (- 327 / 25), Fin (- 1558 / 125)])"
  "MACD hot_env (close_5min rising_history) 13 21
     = ([Fin (- 12), Fin (- 11), Fin (- 10)],
        [Fin (- 68 / 5), Fin (- 327 / 25), Fin (- 1558 / 125)])"
  by (simp_all add: sample_defs number_defs pipeline_defs)

lemma sample_zero_cross:
  "zero_cross (anchored_state\<lparr>cool_down := [''AAPL'' \<mapsto> None]\<rparr>) ''AAPL''
     [Fin (- 12), Fin (- 11), Fin (- 10)] = Inr NoCross"
  by (simp add: sample_defs number_defs entry_defs)

lemma sample_to_buy:
  "to_buy (anchored_state\<lparr>cool_down := [''AAPL'' \<mapsto> None]\<rparr>) ''AAPL''
     [Fin (- 12), Fin (- 11), Fin (- 10)]
     [Fin (- 68 / 5), Fin (- 327 / 25), Fin (- 1558 / 125)] (last rising_history) = Inr True"
  by (simp add: sample_defs number_defs entry_defs)

lemma sample_rsi:
  "idx_back (RSI example_env (session_close rising_history) 14) 1 = Inr (Fin 50)"
  "idx_back (RSI hot_env (session_close rising_history) 14) 1 = Inr (Fin 80)"
  by (simp_all add: sample_defs number_defs pipeline_defs)

lemma sample_rush: "morning_rush example_env sample_now = False"
  by (simp add: sample_defs number_defs morning_rush_def)

lemma sample_anchor:
  "down_cross (anchored_state\<lparr>cool_down := [''AAPL'' \<mapsto> None]\<rparr>) ''AAPL'' = Some (Some 52)"
  by (simp add: sample_defs)

section \<open>Risk gate\<close>

text \<open>
  Claim C5. In an entry evaluation that has confirmed the trend, a latest reading of
  the 14-period bounded oscillator at or above 75 ends the evaluation with no action
  and stores, as the symbol's cooldown, the current time truncated to the minute plus
  five minutes; a reading below 75 sends the evaluation on to pricing and sizing. The
  truncated time is a whole minute, at most the current time and less than a minute
  before it.
\<close>

theorem overbought_gate:
  assumes "2 \<le> length h"
      and "buy_guard e st0 symbol position (last h) now = (True, st)"
      and "MACD e (close_5min h) 13 21 = (macd, macd_signal)"
      and "zero_cross st symbol macd = Inr NoCross"
      and "to_buy st symbol macd macd_signal (last h) = Inr True"
      and "idx_back (RSI e (session_close h) 14) 1 = Inr r"
  shows "(fl_ge r (Fin 75) \<longrightarrow>
            run e st0 symbol position h now pv api =
              (Returned NoAction,
               st\<lparr>cool_down := (cool_down st)(symbol \<mapsto> Some (replace_sec0 now + minutes 5))\<rparr>))
       \<and> (fl_lt r (Fin 75) \<longrightarrow>
            run e st0 symbol position h now pv api =
              price_and_size e st symbol position (last h) (morning_rush e now)
                macd macd_signal pv api)
       \<and> replace_sec0 now mod minutes 1 = 0 \<and> replace_sec0 now \<le> now
       \<and> now < replace_sec0 now + minutes 1"
proof -
  have ge_not_lt: "fl_ge r (Fin 75) \<Longrightarrow> \<not> fl_lt r (Fin 75)"
    by (cases r) (simp_all add: fl_ge_def)
  have "run e st0 symbol position h now pv api =
          risk_gate e st symbol position h (last h) now (morning_rush e now)
            macd macd_signal pv api"
    by (rule run_confirmed [OF assms(1-5)])
  then show ?thesis
    using assms(6) ge_not_lt replace_sec0_minute [of now]
    by (simp add: risk_gate_def minutes_def)
qed

theorem overbought_gate_witness:
  "run hot_env anchored_state ''AAPL'' 0 rising_history sample_now (Some 100000) None
     = (Returned NoAction, anchored_state\<lparr>cool_down := [''AAPL'' \<mapsto> Some (minutes 645)]\<rparr>)
   \<and> run example_env anchored_state ''AAPL'' 0 rising_history sample_now (Some 100000) None
     = price_and_size example_env (anchored_state\<lparr>cool_down := [''AAPL'' \<mapsto> None]\<rparr>)
         ''AAPL'' 0 (last rising_history) False [Fin (- 12), Fin (- 11), Fin (- 10)]
         [Fin (- 68 / 5), Fin (- 327 / 25), Fin (- 1558 / 125)] (Some 100000) None"
proof -
  let ?st = "anchored_state\<lparr>cool_down := [''AAPL'' \<mapsto> None]\<rparr>"
  have a: "run hot_env anchored_state ''AAPL'' 0 rising_history sample_now (Some 100000) None
             = (Returned NoAction,
                ?st\<lparr>cool_down := (cool_down ?st)(''AAPL'' \<mapsto>
                      Some (replace_sec0 sample_now + minutes 5))\<rparr>)"
    using overbought_gate [OF sample_length sample_guard(2) sample_entry_macd(2) sample_zero_cross
        sample_to_buy sample_rsi(2), of "Some 100000" None]
    by (simp add: fl_ge_def)
  have b: "run example_env anchored_state ''AAPL'' 0 rising_history sample_now (Some 100000) None
             = price_and_size example_env ?st ''AAPL'' 0 (last rising_history)
                 (morning_rush example_env sample_now) [Fin (- 12), Fin (- 11), Fin (- 10)]
                 [Fin (- 68 / 5), Fin (- 327 / 25), Fin (- 1558 / 125)] (Some 100000) None"
    using overbought_gate [OF sample_length sample_guard(1) sample_entry_macd(1) sample_zero_cross
        sample_to_buy sample_rsi(1), of "Some 100000" None]
    by simp
  have c: "?st\<lparr>cool_down := (cool_down ?st)(''AAPL'' \<mapsto>
                  Some (replace_sec0 sample_now + minutes 5))\<rparr>
             = anchored_state\<lparr>cool_down := [''AAPL'' \<mapsto> Some (minutes 645)]\<rparr>"
    by (simp add: sample_defs number_defs)
  show ?thesis
    using a b c sample_rush by simp
qed

section \<open>Position sizing\<close>



lemma submit_buy_outcome:
  assumes "stop_prices st symbol = Some stop"
  shows "fst (submit_buy e st symbol position data rush macd macd_signal v) =
           (if fl_gt (shares_to_buy e v (close data) stop position) (Fin 0)
            then Returned (Submit (Order Buy
                   (FloatQty (shares_to_buy e v (close data) stop position))
                   (if rush then Market else Limit (max (close data) (vwap data)))))
            else Returned NoAction)"
  using assms by (simp add: submit_buy_def lookup_def Let_def)

lemma submit_buy_store:
  "stop_prices (snd (submit_buy e st symbol position data rush macd macd_signal v))
     = stop_prices st
   \<and> target_prices (snd (submit_buy e st symbol position data rush macd macd_signal v))
     = target_prices st"
  by (simp add: submit_buy_def lookup_def Let_def split: option.splits)

lemma price_and_size_supplied:
  assumes "down_cross st symbol = Some (Some a)"
  shows "price_and_size e st symbol position data rush macd macd_signal (Some v) api =
           submit_buy e
             (st\<lparr>target_prices := (target_prices st)(symbol \<mapsto> dbl (a * dbl (112 / 100))),
                 stop_prices := (stop_prices st)(symbol \<mapsto>
                   dbl (close data * dbl (96 / 100)))\<rparr>)
             symbol position data rush macd macd_signal v"
  using assms by (simp add: price_and_size_def)


lemma price_and_size_store:
  assumes "down_cross st symbol = Some (Some a)"
  shows "stop_prices (snd (price_and_size e st symbol position data rush macd macd_signal pv api))
           symbol = Some (dbl (close data * dbl (96 / 100)))
       \<and> target_prices (snd (price_and_size e st symbol position data rush macd macd_signal pv api))
           symbol = Some (dbl (a * dbl (112 / 100)))"
  using assms
  by (simp add: price_and_size_def Let_def submit_buy_store split: option.splits sum.splits)


lemma sample_sizing:
  "dbl (close (last rising_history) * dbl (96 / 100)) = 48"
  "dbl (100000 * risk example_env) = 1000"
  "dbl (close (last rising_history) - 48) = 2"
  "close (last rising_history) = 50" "vwap (last rising_history) = 50"
  by (simp_all add: sample_defs double_defs split del: if_split)


section \<open>Portfolio value retrieval\<close>

lemma get_account_retry_bound: "snd (get_account_retry api retry calls) \<le> calls + retry"
proof (induction retry arbitrary: calls)
  case 0
  show ?case by simp
next
  case (Suc retry)
  show ?case
  proof (cases "api calls")
    case (Fetched v)
    then show ?thesis by simp
  next
    case ConnectionError
    then show ?thesis using Suc.IH [of "Suc calls"] by simp
  next
    case OtherFailure
    then show ?thesis by simp
  qed
qed

lemma get_account_retry_prefix:
  "calls \<le> k \<Longrightarrow> Suc k < snd (get_account_retry api retry calls) \<Longrightarrow> api k = ConnectionError"
proof (induction retry arbitrary: calls)
  case 0
  then show ?case by simp
next
  case (Suc retry)
  show ?case
  proof (cases "api calls")
    case (Fetched v)
    then show ?thesis using Suc.prems by simp
  next
    case OtherFailure
    then show ?thesis using Suc.prems by simp
  next
    case ConnectionError
    show ?thesis
    proof (cases "k = calls")
      case True
      then show ?thesis using ConnectionError by simp
    next
      case False
      then have "Suc calls \<le> k" using Suc.prems(1) by simp
      moreover have "Suc k < snd (get_account_retry api retry (Suc calls))"
        using Suc.prems(2) ConnectionError by simp
      ultimately show ?thesis by (rule Suc.IH)
    qed
  qed
qed

lemma get_account_retry_exhausted:
  assumes "api 0 = ConnectionError" and "api 1 = ConnectionError" and "api 2 = ConnectionError"
  shows "get_account_retry api 3 0 = (Inr None, 3)"
proof -
  have "api (Suc 0) = ConnectionError" and "api (Suc (Suc 0)) = ConnectionError"
    using assms(2,3) by (simp_all add: numeral_2_eq_2)
  then show ?thesis
    using assms(1) by (simp add: numeral_3_eq_3)
qed

lemma get_account_retry_other:
  assumes "api 0 = OtherFailure"
  shows "get_account_retry api 3 0 = (Inl ApiFailure, 1)"
  using assms by (simp add: numeral_3_eq_3)

text \<open>
  Claim C8. For every gateway the retry loop makes at most three calls, and a call is
  followed by another only when it failed to connect. In an entry evaluation that has
  passed the risk gate without a supplied portfolio value: three connection failures
  make exactly three calls and the evaluation returns no action; a failure of another
  kind on the first call is raised after that one call; and with no gateway either the
  configuration error is raised.
\<close>

theorem bounded_retry:
  assumes "2 \<le> length h"
      and "buy_guard e st0 symbol position (last h) now = (True, st)"
      and "MACD e (close_5min h) 13 21 = (macd, macd_signal)"
      and "zero_cross st symbol macd = Inr NoCross"
      and "to_buy st symbol macd macd_signal (last h) = Inr True"
      and "idx_back (RSI e (session_close h) 14) 1 = Inr r" and "fl_lt r (Fin 75)"
  shows "snd (get_account_retry f 3 0) \<le> 3
       \<and> (\<forall>k. Suc k < snd (get_account_retry f 3 0) \<longrightarrow> f k = ConnectionError)
       \<and> (f 0 = ConnectionError \<and> f 1 = ConnectionError \<and> f 2 = ConnectionError \<longrightarrow>
            snd (get_account_retry f 3 0) = 3
            \<and> fst (run e st0 symbol position h now None (Some f)) = Returned NoAction)
       \<and> (f 0 = OtherFailure \<longrightarrow>
            snd (get_account_retry f 3 0) = 1
            \<and> fst (run e st0 symbol position h now None (Some f)) = Raised ApiFailure)
       \<and> fst (run e st0 symbol position h now None None) = Raised ConfigError"
proof -
  obtain a where a: "down_cross st symbol = Some (Some a)"
    using to_buy_anchor [OF assms(5)] by blast
  have r: "\<And>api. run e st0 symbol position h now None api =
             price_and_size e st symbol position (last h) (morning_rush e now)
               macd macd_signal None api"
    by (rule run_sizing [OF assms])
  have bound: "snd (get_account_retry f 3 0) \<le> 3"
    using get_account_retry_bound [of f 3 0] by simp
  have prefix: "\<forall>k. Suc k < snd (get_account_retry f 3 0) \<longrightarrow> f k = ConnectionError"
    using get_account_retry_prefix [of 0 _ f 3] by blast
  have exhausted: "f 0 = ConnectionError \<and> f 1 = ConnectionError \<and> f 2 = ConnectionError \<longrightarrow>
            snd (get_account_retry f 3 0) = 3
            \<and> fst (run e st0 symbol position h now None (Some f)) = Returned NoAction"
    using a by (auto simp add: r price_and_size_def get_account_retry_exhausted)
  have other: "f 0 = OtherFailure \<longrightarrow>
            snd (get_account_retry f 3 0) = 1
            \<and> fst (run e st0 symbol position h now None (Some f)) = Raised ApiFailure"
    using a by (auto simp add: r price_and_size_def get_account_retry_other)
  have config: "fst (run e st0 symbol position h now None None) = Raised ConfigError"
    using a by (simp add: r price_and_size_def)
  show ?thesis
    using bound prefix exhausted other config by blast
qed

theorem bounded_retry_witness:
  "snd (get_account_retry always_down 3 0) = 3
   \<and> fst (run example_env anchored_state ''AAPL'' 0 rising_history sample_now None
            (Some always_down)) = Returned NoAction
   \<and> fst (run example_env anchored_state ''AAPL'' 0 rising_history sample_now None None)
       = Raised ConfigError"
proof -
  have lt: "fl_lt (Fin 50) (Fin 75)" by simp
  have down: "always_down 0 = ConnectionError \<and> always_down 1 = ConnectionError
              \<and> always_down 2 = ConnectionError"
    by (simp add: always_down_def)
  show ?thesis
    using bounded_retry [OF sample_length sample_guard(1) sample_entry_macd(1) sample_zero_cross
        sample_to_buy sample_rsi(1) lt, of always_down] down
    by blast
qed

section \<open>Stop and target prices are stored before sizing\<close>

text \<open>
  Claim C10. In an entry evaluation that has passed the risk gate, whatever the
  supplied portfolio value and the gateway are and however the evaluation ends, the
  state it leaves holds close times 0.96 as the symbol's stop price and anchor times
  1.12 as its target price, both products being those of doubles. That includes the
  three ways of ending without an order: the configuration error, three failed fetches,
  and a share count that is not positive.
\<close>

theorem stops_stored_before_sizing:
  assumes "2 \<le> length h"
      and "buy_guard e st0 symbol position (last h) now = (True, st)"
      and "MACD e (close_5min h) 13 21 = (macd, macd_signal)"
      and "zero_cross st symbol macd = Inr NoCross"
      and "to_buy st symbol macd macd_signal (last h) = Inr True"
      and "idx_back (RSI e (session_close h) 14) 1 = Inr r" and "fl_lt r (Fin 75)"
      and "down_cross st symbol = Some (Some a)"
  shows "stop_prices (snd (run e st0 symbol position h now pv api)) symbol
           = Some (dbl (close (last h) * dbl (96 / 100)))
       \<and> target_prices (snd (run e st0 symbol position h now pv api)) symbol
           = Some (dbl (a * dbl (112 / 100)))
       \<and> (pv = None \<and> api = None \<longrightarrow>
            fst (run e st0 symbol position h now pv api) = Raised ConfigError)
       \<and> (pv = None \<and> api = Some f \<and> f 0 = ConnectionError \<and> f 1 = ConnectionError
            \<and> f 2 = ConnectionError \<longrightarrow>
            fst (run e st0 symbol position h now pv api) = Returned NoAction)
       \<and> (pv = Some v
            \<and> \<not> fl_gt (shares_to_buy e v (close (last h)) (dbl (close (last h) * dbl (96 / 100))) position)
                  (Fin 0) \<longrightarrow>
            fst (run e st0 symbol position h now pv api) = Returned NoAction)"
proof -
  have r: "\<And>pv api. run e st0 symbol position h now pv api =
             price_and_size e st symbol position (last h) (morning_rush e now)
               macd macd_signal pv api"
    by (rule run_sizing [OF assms(1-7)])
  let ?st1 = "st\<lparr>target_prices := (target_prices st)(symbol \<mapsto> dbl (a * dbl (112 / 100))),
                 stop_prices := (stop_prices st)(symbol \<mapsto> dbl (close (last h) * dbl (96 / 100)))\<rparr>"
  have stop: "stop_prices ?st1 symbol = Some (dbl (close (last h) * dbl (96 / 100)))"
    by simp
  have store: "stop_prices (snd (run e st0 symbol position h now pv api)) symbol
                 = Some (dbl (close (last h) * dbl (96 / 100)))
             \<and> target_prices (snd (run e st0 symbol position h now pv api)) symbol
                 = Some (dbl (a * dbl (112 / 100)))"
    unfolding r by (rule price_and_size_store [OF assms(8)])
  have config: "pv = None \<and> api = None \<longrightarrow>
            fst (run e st0 symbol position h now pv api) = Raised ConfigError"
    using assms(8) by (simp add: r price_and_size_def)
  have exhausted: "pv = None \<and> api = Some f \<and> f 0 = ConnectionError \<and> f 1 = ConnectionError
            \<and> f 2 = ConnectionError \<longrightarrow>
            fst (run e st0 symbol position h now pv api) = Returned NoAction"
    using assms(8) by (auto simp add: r price_and_size_def get_account_retry_exhausted)
  have none: "pv = Some v
            \<and> \<not> fl_gt (shares_to_buy e v (close (last h)) (dbl (close (last h) * dbl (96 / 100))) position)
                  (Fin 0) \<longrightarrow>
            fst (run e st0 symbol position h now pv api) = Returned NoAction"
    using submit_buy_outcome [OF stop]
    by (auto simp add: r price_and_size_supplied [OF assms(8)])
  show ?thesis
    using store config exhausted none by blast
qed

theorem stops_stored_before_sizing_witness:
  "stop_prices anchored_state ''AAPL'' = Some 40 \<and> target_prices anchored_state ''AAPL'' = Some 70
   \<and> fst (run example_env anchored_state ''AAPL'' 0 rising_history sample_now None None)
       = Raised ConfigError
   \<and> stop_prices (snd (run example_env anchored_state ''AAPL'' 0 rising_history sample_now
                        None None)) ''AAPL'' = Some 48
   \<and> target_prices (snd (run example_env anchored_state ''AAPL'' 0 rising_history sample_now
                          None None)) ''AAPL'' = Some (256142228806697 / 4398046511104)"
proof -
  have lt: "fl_lt (Fin 50) (Fin 75)" by simp
  have target: "dbl (52 * dbl (112 / 100)) = 256142228806697 / 4398046511104"
    by (simp add: double_defs split del: if_split)
  have before: "stop_prices anchored_state ''AAPL'' = Some 40"
    "target_prices anchored_state ''AAPL'' = Some 70"
    by (simp_all add: sample_defs)
  have after: "stop_prices (snd (run example_env anchored_state ''AAPL'' 0 rising_history
                  sample_now None None)) ''AAPL'' = Some 48
      \<and> target_prices (snd (run example_env anchored_state ''AAPL'' 0 rising_history
                  sample_now None None)) ''AAPL'' = Some (256142228806697 / 4398046511104)
      \<and> fst (run example_env anchored_state ''AAPL'' 0 rising_history sample_now None None)
           = Raised ConfigError"
    using stops_stored_before_sizing [OF sample_length sample_guard(1) sample_entry_macd(1)
        sample_zero_cross sample_to_buy sample_rsi(1) lt sample_anchor, of None None]
    unfolding sample_sizing(1) target by blast
  show ?thesis
    using before after by (intro conjI) blast+
qed

section \<open>Exit decision engine: what is computed\<close>

lemma whipsaw_update_present:
  assumes "latest_cost_basis st symbol = Some cb"
  shows "whipsaw_update st symbol data =
           Inr (if whipsawed st symbol \<noteq> Some True \<and> close data < cb * (99 / 100)
                then st\<lparr>whipsawed := (whipsawed st)(symbol \<mapsto> True)\<rparr> else st)"
  using assms by (simp add: whipsaw_update_def bindE_def lookup_def)

lemma whipsaw_update_frame:
  assumes "whipsaw_update st symbol data = Inr st1"
  shows "stop_prices st1 = stop_prices st \<and> target_prices st1 = target_prices st
       \<and> latest_scalp_basis st1 = latest_scalp_basis st \<and> buy_time st1 = buy_time st
       \<and> latest_cost_basis st1 = latest_cost_basis st"
  using assms
  by (auto simp add: whipsaw_update_def bindE_def lookup_def split: if_splits option.splits)


lemma macd_falling_read:
  assumes "idx_back macd 1 = Inr m1" and "idx_back macd 2 = Inr m2"
  shows "macd_falling macd rf = Inr (fl_lt (py_round m1 rf) (py_round m2 rf))"
  using assms by (simp add: macd_falling_def bindE_def)

lemma exit_calc_explicit:
  assumes "fine_serie h data = Inr serie" and "MACD e serie 13 21 = (macd, macd_signal)"
      and "latest_scalp_basis st symbol = Some sb" and "buy_time st symbol = Some bt"
      and "target_prices st symbol = Some target" and "latest_cost_basis st symbol = Some cb"
      and "idx_back macd 1 = Inr m1" and "idx_back macd 2 = Inr m2"
      and "idx_back macd_signal 1 = Inr s1"
      and "mv = np_div (close data - sb) sb"
      and "mm = (case max_close_since h bt of None \<Rightarrow> NaN | Some m \<Rightarrow> np_div (m - sb) sb)"
      and "falling = fl_lt (py_round m1 (round_factor m1 s1)) (py_round m2 (round_factor m1 s1))"
  shows "exit_calc e st symbol h data =
           Inr \<lparr>c_rsi = RSI e (session_close h) 14, c_macd = macd,
                c_macd_signal = macd_signal, c_movement = mv,
                c_bail_out = ((cb < sb \<or> (fl_gt mm (Fin (2 / 100)) \<and> fl_gt mm mv))
                               \<and> macd_below_signal m1 s1 \<and> falling),
                c_bail_on_whipsawed = (whipsawed st symbol = Some True
                               \<and> fl_gt mv (Fin (1 / 100)) \<and> macd_below_signal m1 s1 \<and> falling),
                c_scalp = (fl_gt mv (Fin (4 / 100)) \<or> (target + sb) / 2 < vwap data)\<rparr>"
  using assms(1-9)
  unfolding exit_calc_def assms(10-12)
  by (auto simp add: bindE_def lookup_def Let_def macd_falling_read [OF assms(7,8)])

lemma sell_chain_explicit:
  assumes "stop_prices st symbol = Some stop" and "target_prices st symbol = Some target"
      and "idx_back (c_macd c) 1 = Inr m1" and "idx_back (c_rsi c) 1 = Inr r"
  shows "sell_chain st symbol c data rush =
           Inr (if close data \<le> stop then Some Stopped
                else if target \<le> close data \<and> fl_le m1 (Fin 0) then Some AboveTarget
                else if fl_ge r (Fin (if rush then 85 else 79)) then Some RsiMax
                else if c_bail_out c then Some Bail
                else if c_scalp c then Some ScaleOut
                else if c_bail_on_whipsawed c then Some BailPostWhipsawed
                else None)"
  using assms by (simp add: sell_chain_def bindE_def lookup_def)

lemma run_sell_outcome:
  assumes "whipsaw_update st symbol data = Inr st1"
      and "exit_calc e st1 symbol h data = Inr c"
      and "sell_chain st1 symbol c data rush = Inr x"
  shows "run_sell e st symbol position h data now rush =
           (case x of
              None \<Rightarrow> (Returned NoAction, st1)
            | Some r \<Rightarrow> (Returned (Submit (sell_order r position data)),
                         record_sell st1 symbol c data now r))"
  using assms by (simp add: run_sell_def split: option.splits)




section \<open>Exit priority\<close>


text \<open>The sample exit: bought at 50 with stop 48 and target 56, scalp basis 40, closes
  49 and 47.\<close>

lemma sample_exit:
  "2 \<le> length short_history"
  "sell_guard example_env holding_state ''AAPL'' 10 sample_now = Inr True"
  "latest_cost_basis holding_state ''AAPL'' = Some 50"
  "latest_scalp_basis holding_state ''AAPL'' = Some 40"
  "buy_time holding_state ''AAPL'' = Some (minutes 600)"
  "target_prices holding_state ''AAPL'' = Some 56"
  "stop_prices holding_state ''AAPL'' = Some 48"
  "fine_serie short_history (last short_history) = Inr [49, 47]"
  "MACD example_env [49, 47] 13 21
     = ([Fin (- 11), Fin (- 13)], [Fin (- 67 / 5), Fin (- 333 / 25)])"
  "idx_back (RSI example_env (session_close short_history) 14) 1 = Inr (Fin 47)"
  "close (last short_history) = 47" "vwap (last short_history) = 47"
  by (simp_all add: sample_defs number_defs pipeline_defs exit_defs)


section \<open>Reads of the exit path\<close>

lemma idx_back_ok: "1 \<le> k \<Longrightarrow> k \<le> length xs \<Longrightarrow> \<exists>v. idx_back xs k = Inr v"
  by (simp add: idx_back_def)

lemma idx_back_cases: "idx_back xs k = Inl IndexError \<or> (\<exists>v. idx_back xs k = Inr v)"
  by (simp add: idx_back_def)

lemma sell_guard_holds:
  assumes "is_sell_time e now" and "0 < position"
      and "latest_cost_basis st symbol = Some cb"
      and "last_used_strategy st symbol = Some strategy_name"
      and "open_orders st symbol \<noteq> Some True"
  shows "sell_guard e st symbol position now = Inr True"
  using assms by (simp add: sell_guard_def bindE_def lookup_def)

text \<open>
  Claim C7 as stated fails: the exit preconditions test only the cost basis and the
  owning strategy. With these two on record and no scalp basis, the evaluation raises
  a \<open>KeyError\<close>.
\<close>

theorem exit_reads_counterexample:
  "is_sell_time example_env sample_now \<and> (0::int) < 10
   \<and> latest_cost_basis bare_state ''AAPL'' = Some 50
   \<and> last_used_strategy bare_state ''AAPL'' = Some strategy_name
   \<and> open_orders bare_state ''AAPL'' \<noteq> Some True
   \<and> latest_scalp_basis bare_state ''AAPL'' = None
   \<and> fst (run example_env bare_state ''AAPL'' 10 short_history sample_now None None)
       = Raised KeyError"
  by (simp add: sample_defs number_defs pipeline_defs entry_defs exit_defs run_def)

text \<open>
  Claim C7, as the code has it. On a history of at least two bars and under the exit
  preconditions, when the store also holds the symbol's scalp basis, buy time, target
  price and stop price, the series for the oscillator can be formed (the assignment of
  the VWAP to its last element succeeds), and the indicators give at least two
  oscillator readings, one signal reading and one bounded-oscillator reading, the
  evaluation returns a result and raises nothing.
\<close>

theorem exit_returns:
  assumes "2 \<le> length h"
      and "is_sell_time e now" and "0 < position"
      and "latest_cost_basis st symbol = Some cb"
      and "last_used_strategy st symbol = Some strategy_name"
      and "open_orders st symbol \<noteq> Some True"
      and "latest_scalp_basis st symbol = Some sb" and "buy_time st symbol = Some bt"
      and "target_prices st symbol = Some target" and "stop_prices st symbol = Some stop"
      and "fine_serie h (last h) = Inr serie" and "MACD e serie 13 21 = (macd, macd_signal)"
      and "2 \<le> length macd" and "1 \<le> length macd_signal"
      and "1 \<le> length (RSI e (session_close h) 14)"
  shows "\<exists>a st'. run e st symbol position h now pv api = (Returned a, st')"
proof -
  let ?d = "last h"
  let ?rush = "morning_rush e now"
  have guard: "sell_guard e st symbol position now = Inr True"
    by (rule sell_guard_holds [OF assms(2-6)])
  obtain m1 where m1: "idx_back macd 1 = Inr m1"
    using idx_back_ok [of 1 macd] assms(13) by auto
  obtain m2 where m2: "idx_back macd 2 = Inr m2"
    using idx_back_ok [of 2 macd] assms(13) by auto
  obtain s1 where s1: "idx_back macd_signal 1 = Inr s1"
    using idx_back_ok [of 1 macd_signal] assms(14) by auto
  obtain r where r: "idx_back (RSI e (session_close h) 14) 1 = Inr r"
    using idx_back_ok [of 1 "RSI e (session_close h) 14"] assms(15) by auto
  obtain st1 where st1: "whipsaw_update st symbol ?d = Inr st1"
    using whipsaw_update_present [OF assms(4)] by blast
  note frame = whipsaw_update_frame [OF st1]
  obtain c where calc: "exit_calc e st1 symbol h ?d = Inr c" and c_macd: "c_macd c = macd"
    and c_rsi: "c_rsi c = RSI e (session_close h) 14"
    using exit_calc_explicit [OF assms(11,12) _ _ _ _ m1 m2 s1 refl refl refl,
        of st1 symbol sb bt target cb] frame assms(4,7,8,9)
    by simp
  obtain x where chain: "sell_chain st1 symbol c ?d ?rush = Inr x"
    using sell_chain_explicit [of st1 symbol stop target c m1 r ?d ?rush]
      frame assms(9,10) m1 r c_macd c_rsi
    by simp
  have "run e st symbol position h now pv api =
          run_sell e st symbol position h ?d now ?rush"
    by (rule run_exit_branch [OF assms(1) guard])
  then show ?thesis
    unfolding run_sell_outcome [OF st1 calc chain] by (cases x) simp_all
qed

theorem exit_returns_witness:
  "run example_env holding_state ''AAPL'' 10 short_history sample_now None None
     = (Returned (Submit (Order Sell (IntQty 10) Market)),
        snd (run example_env holding_state ''AAPL'' 10 short_history sample_now None None))"
proof -
  have pre: "is_sell_time example_env sample_now" "(0::int) < 10"
    "last_used_strategy holding_state ''AAPL'' = Some strategy_name"
    "open_orders holding_state ''AAPL'' \<noteq> Some True"
    by (simp_all add: sample_defs)
  have len: "2 \<le> length [Fin (- 11), Fin (- 13)]"
    "1 \<le> length [Fin (- 67 / 5), Fin (- 333 / 25)]"
    "1 \<le> length (RSI example_env (session_close short_history) 14)"
    by (simp_all add: sample_defs pipeline_defs number_defs)
  obtain a st' where
    "run example_env holding_state ''AAPL'' 10 short_history sample_now None None
       = (Returned a, st')"
    using exit_returns [OF sample_exit(1) pre(1,2) sample_exit(3) pre(3,4) sample_exit(4-9) len,
        of None None]
    by blast
  moreover have
    "fst (run example_env holding_state ''AAPL'' 10 short_history sample_now None None)
       = Returned (Submit (Order Sell (IntQty 10) Market))"
    by (simp add: sample_defs number_defs pipeline_defs entry_defs exit_defs run_def
        double_defs split del: if_split)
  ultimately show ?thesis by simp
qed

section \<open>Comparison precision\<close>

lemma py_round_nan: "py_round NaN n = NaN"
  by (simp add: py_round_def)

lemma fl_lt_nan: "\<not> fl_lt NaN x" "\<not> fl_lt x NaN"
  by (cases x; simp)+

lemma fl_le_nan: "\<not> fl_le NaN x" "\<not> fl_le x NaN"
  by (cases x; simp)+

text \<open>The integer that \<open>rint\<close> gives for a value of moderate size, and the order of two
  such integers after the division by the power of ten.\<close>

lemma rint_bound:
  fixes x c :: real
  assumes "\<bar>x\<bar> \<le> 2 ^ 20" and "0 < c" and "c \<le> 1000"
  shows "\<bar>of_int (round_half_even (dbl (x * c))) :: real\<bar> \<le> 2 ^ 31"
proof -
  have "\<bar>x * c\<bar> = \<bar>x\<bar> * c" using assms(2) by (simp add: abs_mult)
  also have "\<dots> \<le> 2 ^ 20 * 1000"
    using assms by (intro mult_mono) simp_all
  finally have xc: "\<bar>x * c\<bar> \<le> 1048576000" by simp
  have "\<bar>dbl (x * c) - x * c\<bar> \<le> \<bar>x * c\<bar> / 2 ^ 53" by (rule dbl_error)
  moreover have "\<bar>x * c\<bar> / 2 ^ 53 \<le> 1" using xc by simp
  ultimately have d: "\<bar>dbl (x * c)\<bar> \<le> 1048576001" using xc by linarith
  have "\<bar>of_int (round_half_even (dbl (x * c))) :: real\<bar> \<le> 1048576002"
    using round_half_even_error [of "dbl (x * c)"] d by linarith
  then show ?thesis by simp
qed

lemma dbl_quotient_strict:
  fixes c :: real
  assumes "A < B" and "\<bar>of_int A :: real\<bar> \<le> 2 ^ 31" and "\<bar>of_int B :: real\<bar> \<le> 2 ^ 31"
      and "0 < c" and "c \<le> 1000"
  shows "dbl (of_int A / c) < dbl (of_int B / c)"
proof -
  define i where "i = 1 / c"
  have i: "0 < i" using assms(4) by (simp add: i_def)
  have gap: "of_int A * i + i \<le> of_int B * i"
  proof -
    have "of_int A + 1 \<le> (of_int B :: real)" using assms(1) by linarith
    then have "(of_int A + 1) * i \<le> of_int B * i"
      using i by (simp only: mult_le_cancel_right) simp
    then show ?thesis by (simp add: distrib_right)
  qed
  have small: "\<bar>of_int k * i\<bar> / 2 ^ 53 \<le> i / 4194304"
    if "\<bar>of_int k :: real\<bar> \<le> 2 ^ 31" for k :: int
  proof -
    have "\<bar>of_int k * i\<bar> / 2 ^ 53 = \<bar>of_int k\<bar> / 2 ^ 53 * i"
      using i by (simp add: abs_mult)
    also have "\<dots> \<le> 2 ^ 31 / 2 ^ 53 * i"
      using that i by (intro mult_right_mono divide_right_mono) simp_all
    finally show ?thesis by simp
  qed
  have eA: "\<bar>dbl (of_int A * i) - of_int A * i\<bar> \<le> i / 4194304"
    using dbl_error [of "of_int A * i"] small [OF assms(2)] by linarith
  have eB: "\<bar>dbl (of_int B * i) - of_int B * i\<bar> \<le> i / 4194304"
    using dbl_error [of "of_int B * i"] small [OF assms(3)] by linarith
  have "dbl (of_int A * i) < dbl (of_int B * i)"
    using eA eB gap i by linarith
  then show ?thesis
    by (simp add: i_def)
qed

lemma dbl_quotient_less:
  fixes c :: real
  assumes "\<bar>of_int A :: real\<bar> \<le> 2 ^ 31" and "\<bar>of_int B :: real\<bar> \<le> 2 ^ 31"
      and "0 < c" and "c \<le> 1000"
  shows "(dbl (of_int A / c) < dbl (of_int B / c)) = (A < B)"
proof (cases A B rule: linorder_cases)
  case less
  then show ?thesis
    using dbl_quotient_strict [OF less assms] by simp
next
  case equal
  then show ?thesis by simp
next
  case greater
  then show ?thesis
    using dbl_quotient_strict [OF greater assms(2,1,3,4)] by simp
qed

text \<open>
  Claim C9 as stated fails: the code compares the signed values with 0.1, not their
  magnitudes. For an oscillator of \<open>-0.5046\<close> and a signal of \<open>-0.5044\<close>, both of
  magnitude above 0.1, the precision is 3 and the oscillator counts as below its signal;
  at the precision 2 of the claim it would not.
\<close>

theorem precision_magnitude_counterexample:
  "(1 / 10 :: real) \<le> \<bar>dbl (- 5046 / 10000)\<bar> \<and> (1 / 10 :: real) \<le> \<bar>dbl (- 5044 / 10000)\<bar>
   \<and> round_factor (Fin (dbl (- 5046 / 10000))) (Fin (dbl (- 5044 / 10000))) = 3
   \<and> py_round (Fin (dbl (- 5046 / 10000))) 3 = Fin (dbl (- 505 / 1000))
   \<and> py_round (Fin (dbl (- 5044 / 10000))) 3 = Fin (dbl (- 504 / 1000))
   \<and> macd_below_signal (Fin (dbl (- 5046 / 10000))) (Fin (dbl (- 5044 / 10000)))
   \<and> \<not> fl_lt (py_round (Fin (dbl (- 5046 / 10000))) 2) (py_round (Fin (dbl (- 5044 / 10000))) 2)"
proof -
  have m: "dbl (- 5046 / 10000) = - 4545032743942305 / 9007199254740992"
    and g: "dbl (- 5044 / 10000) = - 1135807826022839 / 2251799813685248"
    by (simp_all add: double_defs split del: if_split)
  show ?thesis
    unfolding m g
    by (simp add: round_factor_def macd_below_signal_def fl_ge_def double_defs
        split del: if_split)
qed

text \<open>
  Claim C9, as the code has it. The precision is 2 decimal places when the oscillator
  value or the signal value itself, sign included, is at least 0.1, and 3 otherwise
  (also when a value is NaN). The oscillator is below its signal exactly when its
  rounding at that precision is strictly less than that of the signal, where rounding
  is \<open>rint(x * 10^p) / 10^p\<close> in doubles; for values up to \<open>2^20\<close> in magnitude that
  is exactly when the integer \<open>rint\<close> gives for the oscillator is less than the one it
  gives for the signal. It is never the case when either value is NaN. For the double
  next to 1.055 and a signal of 1.0625 both roundings are 1.06 and the oscillator is not
  below its signal.
\<close>

theorem comparison_precision:
  "round_factor (Fin x) (Fin y) = (if 1 / 10 \<le> x \<or> 1 / 10 \<le> y then 2 else 3)
   \<and> round_factor NaN NaN = 3
   \<and> macd_below_signal m s
       = fl_lt (py_round m (round_factor m s)) (py_round s (round_factor m s))
   \<and> py_round (Fin x) n = Fin (dbl (of_int (round_half_even (dbl (x * 10 ^ n))) / 10 ^ n))
   \<and> (\<bar>x\<bar> \<le> 2 ^ 20 \<and> \<bar>y\<bar> \<le> 2 ^ 20 \<longrightarrow>
        macd_below_signal (Fin x) (Fin y)
          = (round_half_even (dbl (x * 10 ^ round_factor (Fin x) (Fin y)))
               < round_half_even (dbl (y * 10 ^ round_factor (Fin x) (Fin y)))))
   \<and> \<not> macd_below_signal NaN s \<and> \<not> macd_below_signal m NaN
   \<and> py_round (Fin (dbl (1055 / 1000))) 2 = Fin (dbl (106 / 100))
   \<and> py_round (Fin (10625 / 10000)) 2 = Fin (dbl (106 / 100))
   \<and> \<not> macd_below_signal (Fin (dbl (1055 / 1000))) (Fin (10625 / 10000))"
    (is "?factor \<and> ?factor_nan \<and> ?flag \<and> ?round \<and> ?ints \<and> ?nan1 \<and> ?nan2
         \<and> ?r1 \<and> ?r2 \<and> ?tie")
proof -
  have factor: ?factor and factor_nan: ?factor_nan
    by (simp_all add: round_factor_def fl_ge_def)
  have flag: ?flag
    by (simp add: macd_below_signal_def)
  have round: ?round
    by (simp add: py_round_def)
  have ints: ?ints
  proof
    assume small: "\<bar>x\<bar> \<le> 2 ^ 20 \<and> \<bar>y\<bar> \<le> 2 ^ 20"
    define p where "p = round_factor (Fin x) (Fin y)"
    define c :: real where "c = 10 ^ p"
    have "p = 2 \<or> p = 3" by (simp add: p_def round_factor_def)
    then have c: "0 < c" "c \<le> 1000" by (auto simp add: c_def)
    have A: "\<bar>of_int (round_half_even (dbl (x * c))) :: real\<bar> \<le> 2 ^ 31"
      using small c by (intro rint_bound) simp_all
    have B: "\<bar>of_int (round_half_even (dbl (y * c))) :: real\<bar> \<le> 2 ^ 31"
      using small c by (intro rint_bound) simp_all
    have "macd_below_signal (Fin x) (Fin y)
            = (dbl (of_int (round_half_even (dbl (x * c))) / c)
                 < dbl (of_int (round_half_even (dbl (y * c))) / c))"
      by (simp add: macd_below_signal_def py_round_def p_def c_def)
    also have "\<dots> = (round_half_even (dbl (x * c)) < round_half_even (dbl (y * c)))"
      by (rule dbl_quotient_less [OF A B c])
    finally show "macd_below_signal (Fin x) (Fin y)
          = (round_half_even (dbl (x * 10 ^ round_factor (Fin x) (Fin y)))
               < round_half_even (dbl (y * 10 ^ round_factor (Fin x) (Fin y))))"
      by (simp add: c_def p_def)
  qed
  have nan1: ?nan1 and nan2: ?nan2
    by (simp_all add: macd_below_signal_def py_round_nan fl_lt_nan)
  have v: "dbl (1055 / 1000) = 4751297606875873 / 4503599627370496"
    by (simp add: double_defs split del: if_split)
  have r1: ?r1
    unfolding v by (simp add: double_defs split del: if_split)
  have r2: ?r2
    by (simp add: double_defs split del: if_split)
  have tie: ?tie
    unfolding v
    by (simp add: macd_below_signal_def round_factor_def fl_ge_def double_defs
        split del: if_split)
  show ?thesis
    using factor factor_nan flag round ints nan1 nan2 r1 r2 tie by (intro conjI)
qed

theorem comparison_precision_witness:
  "round_factor (Fin (1 / 8)) (Fin (3 / 16)) = 2
   \<and> macd_below_signal (Fin (1 / 8)) (Fin (3 / 16))
   \<and> round_factor (Fin (- 1 / 4)) (Fin (1 / 16)) = 3"
proof -
  have small: "\<bar>1 / 8 :: real\<bar> \<le> 2 ^ 20 \<and> \<bar>3 / 16 :: real\<bar> \<le> 2 ^ 20"
    by simp
  have rf: "round_factor (Fin (1 / 8)) (Fin (3 / 16)) = 2"
    "round_factor (Fin (- 1 / 4)) (Fin (1 / 16)) = 3"
    using comparison_precision [of "1 / 8" "3 / 16" "Fin 0" "Fin 0"]
      comparison_precision [of "- 1 / 4" "1 / 16" "Fin 0" "Fin 0"]
    by simp_all
  have "macd_below_signal (Fin (1 / 8)) (Fin (3 / 16))
          = (round_half_even (dbl (1 / 8 * 10 ^ 2)) < round_half_even (dbl (3 / 16 * 10 ^ 2)))"
    using comparison_precision [of "1 / 8" "3 / 16" "Fin 0" "Fin 0"] small
    unfolding rf(1) by blast
  then have "macd_below_signal (Fin (1 / 8)) (Fin (3 / 16))"
    by (simp add: double_defs split del: if_split)
  with rf show ?thesis by simp
qed

section \<open>Short histories\<close>

lemma resample_last_length: "length (resample_last bs) \<le> length bs"
  by (induction bs rule: resample_last.induct) (auto simp add: le_SucI)

lemma close_5min_length: "length (close_5min h) \<le> length h"
proof -
  have "length (close_5min h) \<le> length (session_bars h)"
    unfolding close_5min_def by (rule resample_last_length)
  also have "\<dots> \<le> length h"
    by (simp add: session_bars_def)
  finally show ?thesis .
qed

lemma zero_cross_indeterminate:
  assumes "idx_back macd 2 = Inl IndexError \<or> idx_back macd 2 = Inr NaN"
  shows "zero_cross st symbol macd = Inl IndexError
       \<or> zero_cross st symbol macd = Inr UpCross
       \<or> zero_cross st symbol macd = Inr NoCross"
proof (cases "idx_back macd 1")
  case (Inl err)
  then have "err = IndexError"
    using idx_back_cases [of macd 1] by auto
  then show ?thesis
    using Inl by (simp add: zero_cross_def bindE_def)
next
  case (Inr m1)
  show ?thesis
  proof (cases "fl_lt m1 (Fin 0)")
    case True
    then show ?thesis
      using Inr assms by (auto simp add: zero_cross_def bindE_def fl_le_nan)
  next
    case False
    then show ?thesis
      using Inr by (auto simp add: zero_cross_def bindE_def)
  qed
qed

lemma to_buy_indeterminate:
  assumes "idx_back macd 2 = Inl IndexError \<or> idx_back macd 2 = Inr NaN"
  shows "to_buy st symbol macd macd_signal data = Inl IndexError
       \<or> to_buy st symbol macd macd_signal data = Inr False"
proof (cases "idx_back macd 1")
  case (Inl err)
  then have "err = IndexError"
    using idx_back_cases [of macd 1] by auto
  then show ?thesis
    using Inl by (simp add: to_buy_def bindE_def)
next
  case (Inr m1)
  then show ?thesis
    using assms by (auto simp add: to_buy_def bindE_def fl_gt_def fl_lt_nan)
qed

lemma run_buy_indeterminate:
  assumes "MACD e (close_5min h) 13 21 = (macd, macd_signal)"
      and "idx_back macd 2 = Inl IndexError \<or> idx_back macd 2 = Inr NaN"
  shows "fst (run_buy e st symbol position h data now rush pv api) = Returned NoAction
       \<or> fst (run_buy e st symbol position h data now rush pv api) = Raised IndexError"
  using zero_cross_indeterminate [OF assms(2), of st symbol]
    to_buy_indeterminate [OF assms(2), of st symbol macd_signal data]
  by (auto simp add: run_buy_def assms(1))

lemma run_buy_indeterminate_read:
  assumes "MACD e (close_5min h) 13 21 = (macd, macd_signal)"
      and "idx_back macd 1 = Inr m1" and "idx_back macd 2 = Inr NaN"
  shows "fst (run_buy e st symbol position h data now rush pv api) = Returned NoAction"
proof -
  have zc: "zero_cross st symbol macd = Inr UpCross \<or> zero_cross st symbol macd = Inr NoCross"
    using assms(2,3) by (cases "fl_lt m1 (Fin 0)") (auto simp add: zero_cross_def bindE_def fl_le_nan)
  have tb: "to_buy st symbol macd macd_signal data = Inr False"
    using assms(2,3) by (auto simp add: to_buy_def bindE_def fl_gt_def fl_lt_nan)
  show ?thesis
    using zc tb by (auto simp add: run_buy_def assms(1))
qed

lemma run_flat:
  "(length h < 2 \<and> fst (run e st symbol 0 h now pv api) = Raised IndexError)
   \<or> fst (run e st symbol 0 h now pv api) = Returned NoAction
   \<or> (\<exists>st1. fst (run e st symbol 0 h now pv api) =
         fst (run_buy e st1 symbol 0 h (last h) now (morning_rush e now) pv api))"
proof (cases "length h < 2")
  case True
  then show ?thesis by (simp add: run_def)
next
  case False
  obtain b st1 where bg: "buy_guard e st symbol 0 (last h) now = (b, st1)"
    by (cases "buy_guard e st symbol 0 (last h) now") blast
  show ?thesis
    using False bg by (cases b) (auto simp add: run_def sell_guard_flat)
qed

text \<open>
  Claim C3, as the code has it. Let the history have fewer than 30 bars, and let the
  oscillator series be as long as its input and, on an input of fewer than 30 values,
  NaN everywhere except possibly at its last place. Then an evaluation with no position
  held returns no order: no action, or an \<open>IndexError\<close>; and no action whenever the
  coarse series has at least two closes.
\<close>

theorem short_history_no_entry:
  assumes "length h < 30"
      and "\<And>xs. length xs < 30 \<Longrightarrow>
             length (fst (MACD e xs 13 21)) = length xs
             \<and> (\<forall>i. Suc i < length xs \<longrightarrow> fst (MACD e xs 13 21) ! i = NaN)"
  shows "(fst (run e st symbol 0 h now pv api) = Returned NoAction
          \<or> fst (run e st symbol 0 h now pv api) = Raised IndexError)
       \<and> (2 \<le> length (close_5min h) \<longrightarrow>
            fst (run e st symbol 0 h now pv api) = Returned NoAction)"
proof -
  obtain macd macd_signal where m: "MACD e (close_5min h) 13 21 = (macd, macd_signal)"
    by (cases "MACD e (close_5min h) 13 21") blast
  have short: "length (close_5min h) < 30"
    using close_5min_length [of h] assms(1) by simp
  have len: "length macd = length (close_5min h)"
    and nan: "\<forall>i. Suc i < length (close_5min h) \<longrightarrow> macd ! i = NaN"
    using assms(2) [OF short] m by simp_all
  have second: "idx_back macd 2 = Inl IndexError \<or> idx_back macd 2 = Inr NaN"
  proof (cases "2 \<le> length macd")
    case True
    then have "Suc (length macd - 2) < length (close_5min h)"
      using len by simp
    then have "macd ! (length macd - 2) = NaN"
      using nan by blast
    then show ?thesis using True by (simp add: idx_back_def)
  next
    case False
    then show ?thesis by (simp add: idx_back_def)
  qed
  have any: "fst (run_buy e st1 symbol 0 h (last h) now (morning_rush e now) pv api)
               = Returned NoAction
           \<or> fst (run_buy e st1 symbol 0 h (last h) now (morning_rush e now) pv api)
               = Raised IndexError" for st1
    by (rule run_buy_indeterminate [OF m second])
  have two: "fst (run_buy e st1 symbol 0 h (last h) now (morning_rush e now) pv api)
               = Returned NoAction" if "2 \<le> length (close_5min h)" for st1
  proof -
    have l: "2 \<le> length macd" using that len by simp
    obtain m1 where m1: "idx_back macd 1 = Inr m1"
      using idx_back_ok [of 1 macd] l by auto
    have "idx_back macd 2 = Inr NaN"
      using second l by (simp add: idx_back_def)
    then show ?thesis
      by (rule run_buy_indeterminate_read [OF m m1])
  qed
  have len_h: "2 \<le> length h" if "2 \<le> length (close_5min h)"
    using that close_5min_length [of h] by simp
  let ?R = "fst (run e st symbol 0 h now pv api)"
  consider (few) "length h < 2" and "?R = Raised IndexError"
    | (idle) "?R = Returned NoAction"
    | (entry) st1 where "?R = fst (run_buy e st1 symbol 0 h (last h) now
                                    (morning_rush e now) pv api)"
    using run_flat [of h e st symbol now pv api] by blast
  then show ?thesis
  proof cases
    case few
    then show ?thesis using len_h by auto
  next
    case idle
    then show ?thesis by simp
  next
    case entry
    then show ?thesis using any [of st1] two [of st1] by auto
  qed
qed

lemma pad_nan_length: "length (pad_nan k ys) = length ys"
  by (simp add: pad_nan_def)

lemma pad_nan_nth: "i < k \<Longrightarrow> i < length ys \<Longrightarrow> pad_nan k ys ! i = NaN"
  by (simp add: pad_nan_def nth_append)

lemma padded_env_look_back:
  assumes "length xs < 30"
  shows "length (fst (MACD padded_env xs 13 21)) = length xs
       \<and> (\<forall>i. Suc i < length xs \<longrightarrow> fst (MACD padded_env xs 13 21) ! i = NaN)"
proof -
  have "pad_nan 28 (map Fin (sample_macd xs)) ! i = NaN" if "Suc i < length xs" for i
    using that assms by (intro pad_nan_nth) (simp_all add: sample_macd_def)
  then show ?thesis
    by (simp add: padded_env_def example_env_def pad_nan_length sample_macd_def)
qed

theorem short_history_no_entry_witness:
  "length rising_history < 30 \<and> 2 \<le> length (close_5min rising_history)
   \<and> fst (run padded_env anchored_state ''AAPL'' 0 rising_history sample_now (Some 100000) None)
       = Returned NoAction"
proof -
  have short: "length rising_history < 30"
    by (simp add: sample_defs)
  have two: "2 \<le> length (close_5min rising_history)"
    by (simp add: sample_defs pipeline_defs number_defs)
  show ?thesis
    using short_history_no_entry [OF short padded_env_look_back,
        of anchored_state "''AAPL''" sample_now "Some 100000" None] short two
    by simp
qed

text \<open>
  Claim C3 as stated fails on the exit side. On the two-bar sample history every
  indicator reading is NaN, and the exit evaluation still returns an order: the close
  is at or below the stop price, which is tested on prices alone.
\<close>

theorem short_history_exit_counterexample:
  "length short_history < 21 + 9
   \<and> MACD padded_env [49, 47] 13 21 = ([NaN, NaN], [NaN, NaN])
   \<and> fine_serie short_history (last short_history) = Inr [49, 47]
   \<and> RSI padded_env (session_close short_history) 14 = [NaN, NaN]
   \<and> fst (run padded_env holding_state ''AAPL'' 10 short_history sample_now None None)
       = Returned (Submit (Order Sell (IntQty 10) Market))"
  by (simp add: sample_defs number_defs pipeline_defs entry_defs exit_defs run_def
      double_defs split del: if_split)

end
